theory Spec2Isabelle
  imports Main
begin

section \<open>Strings and integers as the scraper uses them\<close>

text \<open>
  The scraper converts an upstream ordinal to text with \<^verbatim>\<open>str\<close>, reads the stored cursor
  back with \<^verbatim>\<open>int\<close>, and recognises the authorization error by a case-insensitive
  substring test on the error text. Strings are byte strings here, so the three
  conversions are the ASCII fragment of the Python ones: \<^verbatim>\<open>lower\<close> folds A-Z only,
  and \<^verbatim>\<open>int\<close> accepts surrounding white space (tab, line feed, vertical tab, form
  feed, carriage return and space, and no other byte), one optional sign, and decimal
  digits with single underscores between digits.
\<close>

definition lower_char :: "char \<Rightarrow> char" where
  "lower_char c =
     (let n = (of_char c :: nat) in if 65 \<le> n \<and> n \<le> 90 then char_of (n + 32) else c)"

definition lower :: "string \<Rightarrow> string" where
  "lower s = map lower_char s"

fun startswith :: "string \<Rightarrow> string \<Rightarrow> bool" where
  "startswith s [] = True"
| "startswith [] (p # ps) = False"
| "startswith (c # cs) (p # ps) = (c = p \<and> startswith cs ps)"

text \<open>\<open>str_contains s p\<close> is Python's \<^verbatim>\<open>p in s\<close> on strings.\<close>

fun str_contains :: "string \<Rightarrow> string \<Rightarrow> bool" where
  "str_contains [] p = (p = [])"
| "str_contains (c # cs) p = (startswith (c # cs) p \<or> str_contains cs p)"

definition is_digit :: "char \<Rightarrow> bool" where
  "is_digit c = (48 \<le> (of_char c :: nat) \<and> (of_char c :: nat) \<le> 57)"

definition digit_val :: "char \<Rightarrow> nat" where
  "digit_val c = of_char c - 48"

definition digit_char :: "nat \<Rightarrow> char" where
  "digit_char d = char_of (48 + d)"

function str_nat :: "nat \<Rightarrow> string" where
  "str_nat n = (if n < 10 then [digit_char n] else str_nat (n div 10) @ [digit_char (n mod 10)])"
  by pat_completeness auto
termination
  by (relation "measure (\<lambda>n. n)") auto

declare str_nat.simps [simp del]

text \<open>\<open>str_int i\<close> is Python's \<^verbatim>\<open>str(i)\<close> on an integer.\<close>

definition str_int :: "int \<Rightarrow> string" where
  "str_int i = (if i < 0 then CHR ''-'' # str_nat (nat (- i)) else str_nat (nat i))"

definition is_space :: "char \<Rightarrow> bool" where
  "is_space c =
     (let n = (of_char c :: nat) in (9 \<le> n \<and> n \<le> 13) \<or> n = 32)"

definition strip :: "string \<Rightarrow> string" where
  "strip s = rev (dropWhile is_space (rev (dropWhile is_space s)))"

fun digits_acc :: "nat \<Rightarrow> string \<Rightarrow> nat option" where
  "digits_acc a [] = Some a"
| "digits_acc a [c] = (if is_digit c then Some (10 * a + digit_val c) else None)"
| "digits_acc a (c # d # ds) =
     (if is_digit c then digits_acc (10 * a + digit_val c) (d # ds)
      else if c = CHR ''_'' \<and> is_digit d then digits_acc (10 * a + digit_val d) ds
      else None)"

definition parse_digits :: "string \<Rightarrow> nat option" where
  "parse_digits s =
     (case s of [] \<Rightarrow> None
      | c # cs \<Rightarrow> if is_digit c then digits_acc (digit_val c) cs else None)"

text \<open>\<open>py_int s\<close> is Python's \<^verbatim>\<open>int(s)\<close> on a string; \<open>None\<close> is the ValueError.\<close>

definition py_int :: "string \<Rightarrow> int option" where
  "py_int s =
     (case strip s of [] \<Rightarrow> None
      | c # cs \<Rightarrow>
          if c = CHR ''-'' then map_option (\<lambda>n. - int n) (parse_digits cs)
          else if c = CHR ''+'' then map_option int (parse_digits cs)
          else map_option int (parse_digits (c # cs)))"

text \<open>
  \<open>max_by key x xs\<close> is Python's \<^verbatim>\<open>max(seq, key=key)\<close> on the non-empty sequence
  \<open>x # xs\<close>: the running maximum is replaced only by a strictly greater key.
\<close>

fun max_by :: "('a \<Rightarrow> int) \<Rightarrow> 'a \<Rightarrow> 'a list \<Rightarrow> 'a" where
  "max_by key b [] = b"
| "max_by key b (x # xs) = max_by key (if key b < key x then x else b) xs"

section \<open>Collaborators\<close>

text \<open>
  A \<^verbatim>\<open>twitter.models.Status\<close>: the scraper itself reads only \<^verbatim>\<open>id\<close>; the creation time
  and the media entries are what the extraction hooks of a concrete scraper read.
\<close>

record status =
  status_id :: int
  created_at :: int
  media_urls :: "string list"

datatype error =
    TwitterError string
  | RuntimeError string
  | ValueError string
  | KeyError string
  | ExtractorError string

text \<open>
  Everything a run does to its collaborators is recorded, in order: the calls to the
  upstream client, the writes to the metadata store, and the calls to the two
  extraction hooks.
\<close>

datatype event =
    GetUserTimelineCall string "int option" nat
  | GetStatusCall int
  | MetadataSet string string
  | ExtractMediaCall status
  | MediaListToDocumentsCall status

fun is_api_call :: "event \<Rightarrow> bool" where
  "is_api_call (GetUserTimelineCall sn since cnt) = True"
| "is_api_call (GetStatusCall i) = True"
| "is_api_call e = False"

fun is_metadata_set :: "event \<Rightarrow> bool" where
  "is_metadata_set (MetadataSet k v) = True"
| "is_metadata_set e = False"

fun is_extraction :: "event \<Rightarrow> bool" where
  "is_extraction (ExtractMediaCall t) = True"
| "is_extraction (MediaListToDocumentsCall t) = True"
| "is_extraction e = False"

text \<open>
  The upstream client \<^verbatim>\<open>self.twitter_api\<close>. Upstream may answer the same request
  differently each time, so each answer also depends on the number of calls made before.
  \<open>Inl m\<close> is a raised \<^verbatim>\<open>twitter.error.TwitterError\<close> whose \<^verbatim>\<open>str\<close> is \<open>m\<close>; the client
  signals every upstream failure with that class. The arguments of \<open>GetUserTimeline\<close>
  are \<^verbatim>\<open>screen_name\<close>, \<^verbatim>\<open>since_id\<close> (\<open>None\<close> when not passed) and \<^verbatim>\<open>count\<close>.
\<close>

record twitter_api =
  GetUserTimeline :: "nat \<Rightarrow> string \<Rightarrow> int option \<Rightarrow> nat \<Rightarrow> string + status list"
  GetStatus :: "nat \<Rightarrow> int \<Rightarrow> string + status"

text \<open>
  The four abstract hooks of \<^verbatim>\<open>TwitterMediaScraper\<close>. The two extraction hooks may raise
  (\<open>Inl m\<close>, an exception with text \<open>m\<close>); the two document accessors are total.
\<close>

record ('m, 'd) extractor =
  extract_media :: "status \<Rightarrow> string + 'm list"
  media_list_to_documents :: "'m list \<Rightarrow> string + 'd list"
  document_to_id :: "'d \<Rightarrow> string"
  document_to_created_at_in_seconds :: "'d \<Rightarrow> int"

text \<open>
  Modelled from the spec: the \<^verbatim>\<open>MetadataStore\<close> and \<^verbatim>\<open>ContentStore\<close> behind
  \<^verbatim>\<open>WorkContext\<close> are not among the sources. The metadata store is the key-value store
  of the specification (\<^verbatim>\<open>exists\<close>, \<^verbatim>\<open>get\<close>, \<^verbatim>\<open>set\<close>), a finite map from keys to strings;
  \<^verbatim>\<open>get\<close> of an absent key is an error. The content store is kept abstract.
\<close>

record 'c world =
  metadata_store :: "string \<rightharpoonup> string"
  content_store :: 'c
  trace :: "event list"

definition log_event :: "event \<Rightarrow> 'c world \<Rightarrow> 'c world" where
  "log_event e w = w\<lparr>trace := trace w @ [e]\<rparr>"

definition api_calls :: "event list \<Rightarrow> nat" where
  "api_calls tr = length (filter is_api_call tr)"

definition metadata_exists :: "string \<Rightarrow> 'c world \<Rightarrow> bool" where
  "metadata_exists k w = (metadata_store w k \<noteq> None)"

definition metadata_get :: "string \<Rightarrow> 'c world \<Rightarrow> error + string" where
  "metadata_get k w = (case metadata_store w k of None \<Rightarrow> Inl (KeyError k) | Some v \<Rightarrow> Inr v)"

definition metadata_set :: "string \<Rightarrow> string \<Rightarrow> 'c world \<Rightarrow> 'c world" where
  "metadata_set k v w = log_event (MetadataSet k v) (w\<lparr>metadata_store := (metadata_store w)(k \<mapsto> v)\<rparr>)"

definition call_GetUserTimeline ::
  "twitter_api \<Rightarrow> string \<Rightarrow> int option \<Rightarrow> nat \<Rightarrow> 'c world \<Rightarrow> (string + status list) \<times> 'c world" where
  "call_GetUserTimeline api sn since cnt w =
     (GetUserTimeline api (api_calls (trace w)) sn since cnt,
      log_event (GetUserTimelineCall sn since cnt) w)"

definition call_GetStatus ::
  "twitter_api \<Rightarrow> int \<Rightarrow> 'c world \<Rightarrow> (string + status) \<times> 'c world" where
  "call_GetStatus api i w = (GetStatus api (api_calls (trace w)) i, log_event (GetStatusCall i) w)"

section \<open>The scraper\<close>

record scraper =
  screen_name :: string
  count :: nat

text \<open>\<^verbatim>\<open>__init__\<close>: 200 is the largest count the upstream returns in one call.\<close>

definition TwitterMediaScraper :: "string \<Rightarrow> scraper" where
  "TwitterMediaScraper sn = \<lparr>screen_name = sn, count = 200\<rparr>"

definition SINCE_ID_KEY :: string where
  "SINCE_ID_KEY = ''since_id''"

definition get_id :: "scraper \<Rightarrow> string" where
  "get_id self = ''twitter_image_scraper.'' @ screen_name self"

subsection \<open>process\<close>

text \<open>
  Lines 61-71: the one-item call that tests whether the user can be read. An error whose
  lower-cased text contains \<^verbatim>\<open>not authorized\<close> ends the run with an empty list; any other
  error is raised again.
\<close>

datatype probe_result = Skip | Proceed

definition probe :: "scraper \<Rightarrow> twitter_api \<Rightarrow> 'c world \<Rightarrow> (error + probe_result) \<times> 'c world" where
  "probe self api w =
     (case call_GetUserTimeline api (screen_name self) None 1 w of
        (Inl te, w1) \<Rightarrow>
          if str_contains (lower te) ''not authorized'' then (Inr Skip, w1)
          else (Inl (TwitterError te), w1)
      | (Inr ts, w1) \<Rightarrow> (Inr Proceed, w1))"

text \<open>Lines 73-86: initialise \<^verbatim>\<open>since_id\<close> when the store has none.\<close>

definition initialize_since_id ::
  "scraper \<Rightarrow> twitter_api \<Rightarrow> 'c world \<Rightarrow> (error + unit) \<times> 'c world" where
  "initialize_since_id self api w =
     (if \<not> metadata_exists SINCE_ID_KEY w then
        (case call_GetUserTimeline api (screen_name self) None 1 w of
           (Inl te, w1) \<Rightarrow> (Inl (TwitterError te), w1)
         | (Inr init_tweets, w1) \<Rightarrow>
             (case init_tweets of
                [] \<Rightarrow>
                  (Inl (RuntimeError
                     ''Cannot obtain the initial tweets in order to get the initial since_id''), w1)
              | t # ts \<Rightarrow>
                  (let init_since_id = status_id (max_by status_id t ts)
                   in (Inr (), metadata_set SINCE_ID_KEY (str_int init_since_id) w1))))
      else (Inr (), w))"

text \<open>
  Lines 88-114: read the cursor, look it up upstream, and fetch either the tweets after
  it or just the latest \<open>count\<close> tweets.
\<close>

definition fetch_tweets ::
  "scraper \<Rightarrow> twitter_api \<Rightarrow> 'c world \<Rightarrow> (error + status list) \<times> 'c world" where
  "fetch_tweets self api w =
     (case metadata_get SINCE_ID_KEY w of
        Inl e \<Rightarrow> (Inl e, w)
      | Inr v \<Rightarrow>
          (case py_int v of
             None \<Rightarrow> (Inl (ValueError v), w)
           | Some since_id \<Rightarrow>
               (case call_GetStatus api since_id w of
                  (r, w1) \<Rightarrow>
                    (let ignore_since_id = (case r of Inl te \<Rightarrow> True | Inr s \<Rightarrow> False) in
                     (case (if \<not> ignore_since_id
                            then call_GetUserTimeline api (screen_name self) (Some since_id) (count self) w1
                            else call_GetUserTimeline api (screen_name self) None (count self) w1) of
                        (Inl te, w2) \<Rightarrow> (Inl (TwitterError te), w2)
                      | (Inr tweets, w2) \<Rightarrow> (Inr tweets, w2))))))"

text \<open>Lines 122-127: the extraction loop, with \<open>acc\<close> for \<^verbatim>\<open>new_documents\<close>.\<close>

fun process_tweets ::
  "('m, 'd) extractor \<Rightarrow> status list \<Rightarrow> 'd list \<Rightarrow> 'c world \<Rightarrow> (error + 'd list) \<times> 'c world" where
  "process_tweets ex [] acc w = (Inr acc, w)"
| "process_tweets ex (tweet # tweets) acc w =
     (let w1 = log_event (ExtractMediaCall tweet) w in
      case extract_media ex tweet of
        Inl m \<Rightarrow> (Inl (ExtractorError m), w1)
      | Inr media_list \<Rightarrow>
          (let w2 = log_event (MediaListToDocumentsCall tweet) w1 in
           case media_list_to_documents ex media_list of
             Inl m \<Rightarrow> (Inl (ExtractorError m), w2)
           | Inr docs \<Rightarrow> process_tweets ex tweets (acc @ docs) w2))"

definition process ::
  "scraper \<Rightarrow> twitter_api \<Rightarrow> ('m, 'd) extractor \<Rightarrow> 'c world \<Rightarrow> (error + 'd list) \<times> 'c world" where
  "process self api ex w =
     (case probe self api w of
        (Inl e, w1) \<Rightarrow> (Inl e, w1)
      | (Inr Skip, w1) \<Rightarrow> (Inr [], w1)
      | (Inr Proceed, w1) \<Rightarrow>
          (case initialize_since_id self api w1 of
             (Inl e, w2) \<Rightarrow> (Inl e, w2)
           | (Inr u, w2) \<Rightarrow>
               (case fetch_tweets self api w2 of
                  (Inl e, w3) \<Rightarrow> (Inl e, w3)
                | (Inr tweets, w3) \<Rightarrow>
                    if tweets = [] then (Inr [], w3)
                    else process_tweets ex tweets [] w3)))"

subsection \<open>post_process\<close>

definition post_process :: "('m, 'd) extractor \<Rightarrow> 'c world \<Rightarrow> 'd list \<Rightarrow> 'c world" where
  "post_process ex w processed_documents =
     (case processed_documents of
        [] \<Rightarrow> w
      | d # ds \<Rightarrow>
          (let new_since_id = document_to_id ex (max_by (document_to_created_at_in_seconds ex) d ds)
           in metadata_set SINCE_ID_KEY new_since_id w))"

text \<open>
  Modelled from the spec: the host that drives a run (\<^verbatim>\<open>PipelineSource\<close>) is not among the
  sources. Following the lifecycle of the specification, a run is \<^verbatim>\<open>process\<close> and, when
  that returns its documents, \<^verbatim>\<open>post_process\<close> on them.
\<close>

definition run ::
  "scraper \<Rightarrow> twitter_api \<Rightarrow> ('m, 'd) extractor \<Rightarrow> 'c world \<Rightarrow> (error + 'd list) \<times> 'c world" where
  "run self api ex w =
     (case process self api ex w of
        (Inl e, w1) \<Rightarrow> (Inl e, w1)
      | (Inr docs, w1) \<Rightarrow> (Inr docs, post_process ex w1 docs))"

text \<open>The stored cursor, read as the next run reads it.\<close>

definition cursor :: "'c world \<Rightarrow> int option" where
  "cursor w = (case metadata_store w SINCE_ID_KEY of None \<Rightarrow> None | Some v \<Rightarrow> py_int v)"

section \<open>A concrete scraper, a simulated upstream and sample stores\<close>

text \<open>
  A small concrete instance on which the statements below are evaluated. The extractor
  makes one document per media entry, identified by the decimal text of the tweet's
  id and stamped with the tweet's creation time; it raises on a tweet that carries the
  entry \<^verbatim>\<open>malformed\<close>. The simulated upstream serves a fixed timeline; from its
  \<open>k\<close>-th call on, every call raises the given error.
\<close>

record doc =
  doc_id :: string
  doc_created_at :: int
  doc_url :: string

definition example_extractor :: "(status \<times> string, doc) extractor" where
  "example_extractor =
     \<lparr>extract_media = (\<lambda>t. if ''malformed'' \<in> set (media_urls t) then Inl ''malformed media entity''
                             else Inr (map (Pair t) (media_urls t))),
      media_list_to_documents = (\<lambda>ml. Inr (map (\<lambda>(t, u).
          \<lparr>doc_id = str_int (status_id t), doc_created_at = created_at t, doc_url = u\<rparr>) ml)),
      document_to_id = doc_id,
      document_to_created_at_in_seconds = doc_created_at\<rparr>"

definition fake_api :: "status list \<Rightarrow> nat \<Rightarrow> string \<Rightarrow> twitter_api" where
  "fake_api timeline k msg =
     \<lparr>GetUserTimeline = (\<lambda>n sn since cnt.
          if k \<le> n then Inl msg
          else Inr (take cnt (filter (\<lambda>t. case since of None \<Rightarrow> True | Some s \<Rightarrow> s < status_id t) timeline))),
      GetStatus = (\<lambda>n i.
          if k \<le> n then Inl msg
          else (case find (\<lambda>t. status_id t = i) timeline of
                  None \<Rightarrow> Inl ''No status found with that ID.''
                | Some t \<Rightarrow> Inr t))\<rparr>"

definition fresh_world :: "unit world" where
  "fresh_world = \<lparr>metadata_store = Map.empty, content_store = (), trace = []\<rparr>"

definition world_with_cursor :: "string \<Rightarrow> unit world" where
  "world_with_cursor v = \<lparr>metadata_store = [SINCE_ID_KEY \<mapsto> v], content_store = (), trace = []\<rparr>"

definition tweet :: "int \<Rightarrow> int \<Rightarrow> string list \<Rightarrow> status" where
  "tweet i secs urls = \<lparr>status_id = i, created_at = secs, media_urls = urls\<rparr>"

definition live_timeline :: "status list" where
  "live_timeline = [tweet 700 30 [''a.jpg''], tweet 600 10 [], tweet 500 5 [''c.jpg'']]"

definition stale_timeline :: "status list" where
  "stale_timeline = [tweet 400 3 [''b.jpg'']]"

definition single_timeline :: "status list" where
  "single_timeline = [tweet 100 1 [''a.jpg'']]"

definition caught_up_timeline :: "status list" where
  "caught_up_timeline = [tweet 500 5 [''c.jpg'']]"

definition sample_doc :: "int \<Rightarrow> int \<Rightarrow> string \<Rightarrow> doc" where
  "sample_doc i secs u = \<lparr>doc_id = str_int i, doc_created_at = secs, doc_url = u\<rparr>"


text \<open>
  Lines 124-125 for a single tweet: the documents the two hooks give for it, or the
  exception of the hook that raised.
\<close>

definition documents_of :: "('m, 'd) extractor \<Rightarrow> status \<Rightarrow> string + 'd list" where
  "documents_of ex t =
     (case extract_media ex t of
        Inl m \<Rightarrow> Inl m
      | Inr media_list \<Rightarrow> media_list_to_documents ex media_list)"

fun is_extract_media :: "event \<Rightarrow> bool" where
  "is_extract_media (ExtractMediaCall t) = True"
| "is_extract_media e = False"

definition malformed_timeline :: "status list" where
  "malformed_timeline =
     [tweet 800 40 [''d.jpg''], tweet 700 30 [''malformed''], tweet 600 10 [''b.jpg''],
      tweet 500 5 [''c.jpg'']]"

text \<open>
  A second extractor, whose document identifiers are not ordinals, and two predicates for
  statements about the cursor's text: the lookup events of a trace, and the strings of
  ASCII characters, for which \<open>py_int\<close> is exactly \<^verbatim>\<open>int\<close>.
\<close>

definition opaque_id_extractor :: "(status \<times> string, doc) extractor" where
  "opaque_id_extractor = example_extractor\<lparr>document_to_id := (\<lambda>d. ''media-'' @ doc_id d)\<rparr>"

fun is_get_status :: "event \<Rightarrow> bool" where
  "is_get_status (GetStatusCall i) = True"
| "is_get_status e = False"

definition is_ascii :: "string \<Rightarrow> bool" where
  "is_ascii s = list_all (\<lambda>c. (of_char c :: nat) < 128) s"

section \<open>Conversions\<close>

lemma of_char_digit_char: "d < 10 \<Longrightarrow> (of_char (digit_char d) :: nat) = 48 + d"
  by (simp add: digit_char_def)

lemma is_digit_digit_char: "d < 10 \<Longrightarrow> is_digit (digit_char d)"
  by (simp add: is_digit_def of_char_digit_char)

lemma digit_val_digit_char: "d < 10 \<Longrightarrow> digit_val (digit_char d) = d"
  by (simp add: digit_val_def of_char_digit_char)

lemma is_digit_not_space: "is_digit c \<Longrightarrow> \<not> is_space c"
  by (simp add: is_digit_def is_space_def Let_def)

lemma is_digit_not_sign: "is_digit c \<Longrightarrow> c \<noteq> CHR ''-'' \<and> c \<noteq> CHR ''+''"
  by (auto simp add: is_digit_def)

lemma str_nat_digits: "\<forall>c \<in> set (str_nat n). is_digit c"
proof (induction n rule: str_nat.induct)
  case (1 n)
  show ?case
  proof (cases "n < 10")
    case True
    then show ?thesis by (simp add: str_nat.simps [of n] is_digit_digit_char)
  next
    case False
    with 1 show ?thesis by (simp add: str_nat.simps [of n] is_digit_digit_char)
  qed
qed

lemma str_nat_nonempty: "str_nat n \<noteq> []"
  by (subst str_nat.simps) simp

lemma digits_acc_all_digits:
  "\<forall>c \<in> set s. is_digit c \<Longrightarrow> digits_acc a s = Some (foldl (\<lambda>a c. 10 * a + digit_val c) a s)"
  by (induction a s rule: digits_acc.induct) auto

lemma parse_digits_all_digits:
  "s \<noteq> [] \<Longrightarrow> \<forall>c \<in> set s. is_digit c \<Longrightarrow>
     parse_digits s = Some (foldl (\<lambda>a c. 10 * a + digit_val c) 0 s)"
  by (cases s) (simp_all add: parse_digits_def digits_acc_all_digits)

lemma foldl_str_nat: "foldl (\<lambda>a c. 10 * a + digit_val c) 0 (str_nat n) = n"
proof (induction n rule: str_nat.induct)
  case (1 n)
  show ?case
  proof (cases "n < 10")
    case True
    then show ?thesis by (simp add: str_nat.simps [of n] digit_val_digit_char)
  next
    case False
    with 1 show ?thesis by (simp add: str_nat.simps [of n] digit_val_digit_char)
  qed
qed

lemma parse_digits_str_nat: "parse_digits (str_nat n) = Some n"
  by (simp add: parse_digits_all_digits str_nat_nonempty str_nat_digits foldl_str_nat)

lemma dropWhile_none: "\<forall>c \<in> set s. \<not> P c \<Longrightarrow> dropWhile P s = s"
  by (cases s) auto

lemma strip_no_space: "\<forall>c \<in> set s. \<not> is_space c \<Longrightarrow> strip s = s"
  by (simp add: strip_def dropWhile_none)

lemma py_int_str_int: "py_int (str_int i) = Some i"
proof (cases "i < 0")
  case True
  have ns: "\<forall>c \<in> set (CHR ''-'' # str_nat (nat (- i))). \<not> is_space c"
    using str_nat_digits [of "nat (- i)"] by (auto simp: is_digit_not_space is_space_def [of "CHR ''-''"])
  show ?thesis
    using True by (simp add: str_int_def py_int_def strip_no_space [OF ns] parse_digits_str_nat)
next
  case False
  have ns: "\<forall>c \<in> set (str_nat (nat i)). \<not> is_space c"
    using str_nat_digits [of "nat i"] by (auto simp: is_digit_not_space)
  obtain c cs where cs: "str_nat (nat i) = c # cs"
    using str_nat_nonempty [of "nat i"] by (cases "str_nat (nat i)") auto
  then have "is_digit c" using str_nat_digits [of "nat i"] by simp
  then have "c \<noteq> CHR ''-''" "c \<noteq> CHR ''+''" using is_digit_not_sign by auto
  moreover have "parse_digits (c # cs) = Some (nat i)"
    using parse_digits_str_nat [of "nat i"] cs by simp
  moreover have "strip (c # cs) = c # cs"
    using strip_no_space [OF ns] cs by simp
  ultimately show ?thesis
    using False cs by (simp add: str_int_def py_int_def)
qed

section \<open>Effects of the basic operations\<close>

lemma trace_log_event [simp]: "trace (log_event e w) = trace w @ [e]"
  by (simp add: log_event_def)

lemma metadata_store_log_event [simp]: "metadata_store (log_event e w) = metadata_store w"
  by (simp add: log_event_def)

lemma content_store_log_event [simp]: "content_store (log_event e w) = content_store w"
  by (simp add: log_event_def)

lemma process_probe_error:
  assumes "GetUserTimeline api (api_calls (trace w)) (screen_name self) None 1 = Inl te"
  shows "process self api ex w =
           (if str_contains (lower te) ''not authorized'' then Inr [] else Inl (TwitterError te),
            log_event (GetUserTimelineCall (screen_name self) None 1) w)"
  using assms by (simp add: process_def probe_def call_GetUserTimeline_def)

section \<open>The availability probe\<close>

text \<open>
  C3. When the first one-item call raises, the run ends at once and the only effect is
  that call: an error whose lower-cased text contains \<^verbatim>\<open>not authorized\<close> gives the empty
  list and no exception; any other error is raised to the caller. In both cases the
  metadata store, and so the cursor, is as it was.
\<close>

theorem probe_error_taxonomy:
  assumes "GetUserTimeline api (api_calls (trace w)) (screen_name self) None 1 = Inl te"
  shows "fst (process self api ex w) =
           (if str_contains (lower te) ''not authorized'' then Inr [] else Inl (TwitterError te))
         \<and> metadata_store (snd (process self api ex w)) = metadata_store w
         \<and> trace (snd (process self api ex w)) = trace w @ [GetUserTimelineCall (screen_name self) None 1]"
  using assms by (simp add: process_probe_error)

lemma lower_not_authorized: "str_contains (lower ''Not authorized.'') ''not authorized''"
  by (simp add: lower_def lower_char_def char_of_def bit_0)

lemma lower_rate_limit: "\<not> str_contains (lower ''Rate limit exceeded'') ''not authorized''"
  by (simp add: lower_def lower_char_def char_of_def bit_0)

theorem probe_error_taxonomy_witness:
  "GetUserTimeline (fake_api [] 0 ''Not authorized.'') (api_calls (trace (world_with_cursor ''500'')))
     (screen_name (TwitterMediaScraper ''acct1'')) None 1 = Inl ''Not authorized.''
   \<and> fst (process (TwitterMediaScraper ''acct1'') (fake_api [] 0 ''Not authorized.'') example_extractor
          (world_with_cursor ''500'')) = Inr []
   \<and> metadata_store (snd (process (TwitterMediaScraper ''acct1'') (fake_api [] 0 ''Not authorized.'')
          example_extractor (world_with_cursor ''500''))) = metadata_store (world_with_cursor ''500'')
   \<and> GetUserTimeline (fake_api [] 0 ''Rate limit exceeded'') (api_calls (trace (world_with_cursor ''500'')))
     (screen_name (TwitterMediaScraper ''acct1'')) None 1 = Inl ''Rate limit exceeded''
   \<and> fst (process (TwitterMediaScraper ''acct1'') (fake_api [] 0 ''Rate limit exceeded'') example_extractor
          (world_with_cursor ''500'')) = Inl (TwitterError ''Rate limit exceeded'')
   \<and> metadata_store (snd (process (TwitterMediaScraper ''acct1'') (fake_api [] 0 ''Rate limit exceeded'')
          example_extractor (world_with_cursor ''500''))) = metadata_store (world_with_cursor ''500'')"
proof -
  have a: "GetUserTimeline (fake_api [] 0 ''Not authorized.'') (api_calls (trace (world_with_cursor ''500'')))
             (screen_name (TwitterMediaScraper ''acct1'')) None 1 = Inl ''Not authorized.''"
    by (simp add: fake_api_def)
  have b: "GetUserTimeline (fake_api [] 0 ''Rate limit exceeded'') (api_calls (trace (world_with_cursor ''500'')))
             (screen_name (TwitterMediaScraper ''acct1'')) None 1 = Inl ''Rate limit exceeded''"
    by (simp add: fake_api_def)
  show ?thesis
    using a b probe_error_taxonomy [OF a, of example_extractor]
      probe_error_taxonomy [OF b, of example_extractor] lower_not_authorized lower_rate_limit
    by simp
qed

section \<open>Effects of a run on the trace and the stores\<close>

lemma api_calls_Nil [simp]: "api_calls [] = 0"
  by (simp add: api_calls_def)

lemma api_calls_Cons [simp]:
  "api_calls (e # es) = (if is_api_call e then Suc (api_calls es) else api_calls es)"
  by (simp add: api_calls_def)

lemma api_calls_append [simp]: "api_calls (xs @ ys) = api_calls xs + api_calls ys"
  by (simp add: api_calls_def)

lemma metadata_store_metadata_set [simp]:
  "metadata_store (metadata_set k v w) = (metadata_store w)(k \<mapsto> v)"
  by (simp add: metadata_set_def)

lemma content_store_metadata_set [simp]: "content_store (metadata_set k v w) = content_store w"
  by (simp add: metadata_set_def)

lemma trace_metadata_set [simp]: "trace (metadata_set k v w) = trace w @ [MetadataSet k v]"
  by (simp add: metadata_set_def)

lemma metadata_store_process_tweets [simp]:
  "metadata_store (snd (process_tweets ex tweets acc w)) = metadata_store w"
  by (induction tweets arbitrary: acc w) (auto simp: Let_def split: sum.splits)

lemma content_store_process_tweets [simp]:
  "content_store (snd (process_tweets ex tweets acc w)) = content_store w"
  by (induction tweets arbitrary: acc w) (auto simp: Let_def split: sum.splits)

lemma trace_process_tweets:
  "\<exists>evs. trace (snd (process_tweets ex tweets acc w)) = trace w @ evs \<and> (\<forall>e \<in> set evs. is_extraction e)"
proof (induction tweets arbitrary: acc w)
  case Nil
  then show ?case by simp
next
  case (Cons t ts)
  show ?case
  proof (cases "extract_media ex t")
    case (Inl m)
    then show ?thesis by (simp add: Let_def)
  next
    case (Inr ml)
    show ?thesis
    proof (cases "media_list_to_documents ex ml")
      case (Inl m)
      with Inr show ?thesis by (simp add: Let_def)
    next
      case (Inr ds)
      obtain evs where
        "trace (snd (process_tweets ex ts (acc @ ds)
            (log_event (MediaListToDocumentsCall t) (log_event (ExtractMediaCall t) w)))) =
         trace (log_event (MediaListToDocumentsCall t) (log_event (ExtractMediaCall t) w)) @ evs"
        "\<forall>e \<in> set evs. is_extraction e"
        using Cons.IH by blast
      with Inr \<open>extract_media ex t = Inr ml\<close> show ?thesis by (simp add: Let_def)
    qed
  qed
qed

lemma filter_api_process_tweets [simp]:
  "filter is_api_call (trace (snd (process_tweets ex tweets acc w))) = filter is_api_call (trace w)"
proof -
  obtain evs where e: "trace (snd (process_tweets ex tweets acc w)) = trace w @ evs"
    "\<forall>e \<in> set evs. is_extraction e"
    using trace_process_tweets by blast
  have "filter is_api_call evs = []"
  proof (simp only: filter_empty_conv, rule ballI)
    fix x assume "x \<in> set evs"
    with e have "is_extraction x" by simp
    then show "\<not> is_api_call x" by (cases x) simp_all
  qed
  with e show ?thesis by simp
qed

lemma filter_set_process_tweets [simp]:
  "filter is_metadata_set (trace (snd (process_tweets ex tweets acc w))) = filter is_metadata_set (trace w)"
proof -
  obtain evs where e: "trace (snd (process_tweets ex tweets acc w)) = trace w @ evs"
    "\<forall>e \<in> set evs. is_extraction e"
    using trace_process_tweets by blast
  have "filter is_metadata_set evs = []"
  proof (simp only: filter_empty_conv, rule ballI)
    fix x assume "x \<in> set evs"
    with e have "is_extraction x" by simp
    then show "\<not> is_metadata_set x" by (cases x) simp_all
  qed
  with e show ?thesis by simp
qed

lemma fst_process_tweets_world:
  "fst (process_tweets ex tweets acc w) = fst (process_tweets ex tweets acc w')"
  by (induction tweets arbitrary: acc w w') (auto simp: Let_def split: sum.splits)

lemma process_with_cursor:
  assumes "metadata_store w SINCE_ID_KEY = Some v" and "py_int v = Some c"
    and "GetUserTimeline api (api_calls (trace w)) (screen_name self) None 1 = Inr ts0"
    and "since = (case GetStatus api (Suc (api_calls (trace w))) c of Inl te \<Rightarrow> None | Inr s \<Rightarrow> Some c)"
    and "w3 = log_event (GetUserTimelineCall (screen_name self) since (count self))
               (log_event (GetStatusCall c)
                 (log_event (GetUserTimelineCall (screen_name self) None 1) w))"
  shows "process self api ex w =
     (case GetUserTimeline api (Suc (Suc (api_calls (trace w)))) (screen_name self) since (count self) of
        Inl te \<Rightarrow> (Inl (TwitterError te), w3)
      | Inr tweets \<Rightarrow> if tweets = [] then (Inr [], w3) else process_tweets ex tweets [] w3)"
  using assms
  by (simp add: process_def probe_def call_GetUserTimeline_def initialize_since_id_def
      metadata_exists_def fetch_tweets_def metadata_get_def call_GetStatus_def Let_def
      split: sum.splits)

lemma process_bootstrap:
  assumes "metadata_store w SINCE_ID_KEY = None"
    and "GetUserTimeline api (api_calls (trace w)) (screen_name self) None 1 = Inr ts0"
    and "GetUserTimeline api (Suc (api_calls (trace w))) (screen_name self) None 1 = Inr (t # ts)"
    and "c = status_id (max_by status_id t ts)"
    and "since = (case GetStatus api (Suc (Suc (api_calls (trace w)))) c of Inl te \<Rightarrow> None | Inr s \<Rightarrow> Some c)"
    and "w4 = log_event (GetUserTimelineCall (screen_name self) since (count self))
               (log_event (GetStatusCall c)
                 (metadata_set SINCE_ID_KEY (str_int c)
                   (log_event (GetUserTimelineCall (screen_name self) None 1)
                     (log_event (GetUserTimelineCall (screen_name self) None 1) w))))"
  shows "process self api ex w =
     (case GetUserTimeline api (Suc (Suc (Suc (api_calls (trace w))))) (screen_name self) since (count self) of
        Inl te \<Rightarrow> (Inl (TwitterError te), w4)
      | Inr tweets \<Rightarrow> if tweets = [] then (Inr [], w4) else process_tweets ex tweets [] w4)"
  using assms
  by (simp add: process_def probe_def call_GetUserTimeline_def initialize_since_id_def
      metadata_exists_def fetch_tweets_def metadata_get_def call_GetStatus_def Let_def
      py_int_str_int split: sum.splits)

lemma process_bootstrap_failure:
  assumes "metadata_store w SINCE_ID_KEY = None"
    and "GetUserTimeline api (api_calls (trace w)) (screen_name self) None 1 = Inr ts0"
  shows "process self api ex w =
     (case GetUserTimeline api (Suc (api_calls (trace w))) (screen_name self) None 1 of
        Inl te \<Rightarrow> (Inl (TwitterError te),
                   log_event (GetUserTimelineCall (screen_name self) None 1)
                     (log_event (GetUserTimelineCall (screen_name self) None 1) w))
      | Inr [] \<Rightarrow> (Inl (RuntimeError ''Cannot obtain the initial tweets in order to get the initial since_id''),
                   log_event (GetUserTimelineCall (screen_name self) None 1)
                     (log_event (GetUserTimelineCall (screen_name self) None 1) w))
      | Inr (t # ts) \<Rightarrow> process self api ex w)"
  using assms
  by (simp add: process_def probe_def call_GetUserTimeline_def initialize_since_id_def
      metadata_exists_def Let_def split: sum.splits list.splits)

section \<open>Evaluating the sample upstream and stores\<close>

lemma GetUserTimeline_fake_api:
  "GetUserTimeline (fake_api timeline k msg) n sn since cnt =
     (if k \<le> n then Inl msg
      else Inr (take cnt (filter (\<lambda>t. case since of None \<Rightarrow> True | Some s \<Rightarrow> s < status_id t) timeline)))"
  by (simp add: fake_api_def)

lemma GetStatus_fake_api:
  "GetStatus (fake_api timeline k msg) n i =
     (if k \<le> n then Inl msg
      else (case find (\<lambda>t. status_id t = i) timeline of
              None \<Rightarrow> Inl ''No status found with that ID.''
            | Some t \<Rightarrow> Inr t))"
  by (simp add: fake_api_def)

lemma world_with_cursor_simps:
  "metadata_store (world_with_cursor v) SINCE_ID_KEY = Some v"
  "trace (world_with_cursor v) = []"
  "content_store (world_with_cursor v) = ()"
  by (simp_all add: world_with_cursor_def)

lemma fresh_world_simps:
  "metadata_store fresh_world k = None"
  "trace fresh_world = []"
  by (simp_all add: fresh_world_def)

lemma py_int_500: "py_int ''500'' = Some 500"
  by (simp add: py_int_def strip_def is_space_def parse_digits_def is_digit_def digit_val_def)

section \<open>Fetch-window selection\<close>

text \<open>
  C4. In a run that starts with a stored cursor \<open>c\<close> and gets past the first one-item
  call, the calls to upstream are exactly three: that call, the lookup of status \<open>c\<close>,
  and one timeline fetch with count 200. The fetch passes \<open>since_id = c\<close> when the lookup
  returned and passes no \<open>since_id\<close> when the lookup raised; the outcome of the run is
  the extraction over the tweets that this fetch returned. A lookup that fails is a
  lookup that raises \<^verbatim>\<open>twitter.error.TwitterError\<close>, the class line 95 catches and the
  only failure of the client in this development; an exception of another class is not
  covered.
\<close>

theorem fetch_window_selection:
  assumes "metadata_store w SINCE_ID_KEY = Some v" and "py_int v = Some c"
    and "GetUserTimeline api (api_calls (trace w)) sn None 1 = Inr ts0"
  shows "filter is_api_call (trace (snd (process (TwitterMediaScraper sn) api ex w))) =
           filter is_api_call (trace w) @
             [GetUserTimelineCall sn None 1, GetStatusCall c,
              GetUserTimelineCall sn
                (if isl (GetStatus api (Suc (api_calls (trace w))) c) then None else Some c) 200]
         \<and> fst (process (TwitterMediaScraper sn) api ex w) =
             (case GetUserTimeline api (Suc (Suc (api_calls (trace w)))) sn
                     (if isl (GetStatus api (Suc (api_calls (trace w))) c) then None else Some c) 200 of
                Inl te \<Rightarrow> Inl (TwitterError te)
              | Inr tweets \<Rightarrow> fst (process_tweets ex tweets [] w))"
proof -
  let ?self = "TwitterMediaScraper sn"
  let ?since = "if isl (GetStatus api (Suc (api_calls (trace w))) c) then None else Some c"
  have sn: "screen_name ?self = sn" and cnt: "count ?self = 200"
    by (simp_all add: TwitterMediaScraper_def)
  have since: "?since = (case GetStatus api (Suc (api_calls (trace w))) c of Inl te \<Rightarrow> None | Inr s \<Rightarrow> Some c)"
    by (simp split: sum.splits)
  note p = process_with_cursor [of w v c api ?self ts0 ?since _ ex, unfolded sn cnt, OF assms since refl]
  show ?thesis
  proof (cases "GetUserTimeline api (Suc (Suc (api_calls (trace w)))) sn ?since 200")
    case (Inl te)
    then show ?thesis by (simp add: p)
  next
    case (Inr tweets)
    show ?thesis
    proof (cases "tweets = []")
      case True
      with Inr show ?thesis by (simp add: p)
    next
      case False
      with Inr show ?thesis
        using fst_process_tweets_world [of ex tweets "[]"
            "log_event (GetUserTimelineCall sn ?since 200)
               (log_event (GetStatusCall c) (log_event (GetUserTimelineCall sn None 1) w))" w]
        by (simp add: p)
    qed
  qed
qed

theorem fetch_window_selection_witness:
  "metadata_store (world_with_cursor ''500'') SINCE_ID_KEY = Some ''500'' \<and> py_int ''500'' = Some 500
   \<and> GetUserTimeline (fake_api live_timeline 10 ''Over capacity'') (api_calls (trace (world_with_cursor ''500'')))
        ''acct1'' None 1 = Inr [tweet 700 30 [''a.jpg'']]
   \<and> filter is_api_call (trace (snd (process (TwitterMediaScraper ''acct1'')
        (fake_api live_timeline 10 ''Over capacity'') example_extractor (world_with_cursor ''500'')))) =
      [GetUserTimelineCall ''acct1'' None 1, GetStatusCall 500, GetUserTimelineCall ''acct1'' (Some 500) 200]
   \<and> GetUserTimeline (fake_api stale_timeline 10 ''Over capacity'') (api_calls (trace (world_with_cursor ''500'')))
        ''acct1'' None 1 = Inr [tweet 400 3 [''b.jpg'']]
   \<and> filter is_api_call (trace (snd (process (TwitterMediaScraper ''acct1'')
        (fake_api stale_timeline 10 ''Over capacity'') example_extractor (world_with_cursor ''500'')))) =
      [GetUserTimelineCall ''acct1'' None 1, GetStatusCall 500, GetUserTimelineCall ''acct1'' None 200]"
proof -
  have s: "metadata_store (world_with_cursor ''500'') SINCE_ID_KEY = Some ''500''"
    by (simp add: world_with_cursor_simps)
  have a: "GetUserTimeline (fake_api live_timeline 10 ''Over capacity'')
             (api_calls (trace (world_with_cursor ''500''))) ''acct1'' None 1 = Inr [tweet 700 30 [''a.jpg'']]"
    by (simp add: GetUserTimeline_fake_api world_with_cursor_simps live_timeline_def)
  have b: "GetUserTimeline (fake_api stale_timeline 10 ''Over capacity'')
             (api_calls (trace (world_with_cursor ''500''))) ''acct1'' None 1 = Inr [tweet 400 3 [''b.jpg'']]"
    by (simp add: GetUserTimeline_fake_api world_with_cursor_simps stale_timeline_def)
  have la: "\<not> isl (GetStatus (fake_api live_timeline 10 ''Over capacity'')
             (Suc (api_calls (trace (world_with_cursor ''500'')))) 500)"
    by (simp add: GetStatus_fake_api world_with_cursor_simps live_timeline_def tweet_def)
  have lb: "isl (GetStatus (fake_api stale_timeline 10 ''Over capacity'')
             (Suc (api_calls (trace (world_with_cursor ''500'')))) 500)"
    by (simp add: GetStatus_fake_api world_with_cursor_simps stale_timeline_def tweet_def)
  have t: "filter is_api_call (trace (world_with_cursor ''500'')) = []"
    by (simp add: world_with_cursor_simps)
  note live = fetch_window_selection [OF s py_int_500 a, of example_extractor, THEN conjunct1]
  note stale = fetch_window_selection [OF s py_int_500 b, of example_extractor, THEN conjunct1]
  show ?thesis
    using live stale by (simp only: s py_int_500 a b la lb t if_True if_False append_Nil simp_thms)
qed

section \<open>Bootstrap\<close>

lemma process_tweets_error:
  "fst (process_tweets ex tweets acc w) = Inl e \<Longrightarrow> \<exists>m. e = ExtractorError m"
  by (induction tweets arbitrary: acc w) (auto simp: Let_def split: sum.splits)

lemma trace_process_bootstrap:
  assumes "metadata_store w SINCE_ID_KEY = None"
    and "GetUserTimeline api (api_calls (trace w)) (screen_name self) None 1 = Inr ts0"
    and "GetUserTimeline api (Suc (api_calls (trace w))) (screen_name self) None 1 = Inr (t # ts)"
    and "c = status_id (max_by status_id t ts)"
  shows "\<exists>since evs. trace (snd (process self api ex w)) =
           trace w @ [GetUserTimelineCall (screen_name self) None 1,
                      GetUserTimelineCall (screen_name self) None 1,
                      MetadataSet SINCE_ID_KEY (str_int c),
                      GetStatusCall c,
                      GetUserTimelineCall (screen_name self) since (count self)] @ evs
           \<and> (\<forall>e \<in> set evs. is_extraction e)"
    and "metadata_store (snd (process self api ex w)) = (metadata_store w)(SINCE_ID_KEY \<mapsto> str_int c)"
    and "\<forall>m. fst (process self api ex w) \<noteq> Inl (RuntimeError m)"
proof -
  let ?since = "case GetStatus api (Suc (Suc (api_calls (trace w)))) c of Inl te \<Rightarrow> None | Inr s \<Rightarrow> Some c"
  let ?w4 = "log_event (GetUserTimelineCall (screen_name self) ?since (count self))
               (log_event (GetStatusCall c)
                 (metadata_set SINCE_ID_KEY (str_int c)
                   (log_event (GetUserTimelineCall (screen_name self) None 1)
                     (log_event (GetUserTimelineCall (screen_name self) None 1) w))))"
  note p = process_bootstrap [OF assms refl refl, of ex]
  let ?r = "GetUserTimeline api (Suc (Suc (Suc (api_calls (trace w))))) (screen_name self) ?since (count self)"
  have tr4: "trace ?w4 = trace w @ [GetUserTimelineCall (screen_name self) None 1,
                      GetUserTimelineCall (screen_name self) None 1,
                      MetadataSet SINCE_ID_KEY (str_int c),
                      GetStatusCall c,
                      GetUserTimelineCall (screen_name self) ?since (count self)]"
    by simp
  have ms4: "metadata_store ?w4 = (metadata_store w)(SINCE_ID_KEY \<mapsto> str_int c)"
    by simp
  obtain evs where evs: "trace (snd (process self api ex w)) = trace ?w4 @ evs"
      "\<forall>e \<in> set evs. is_extraction e"
  proof (cases ?r)
    case (Inl te)
    then have "trace (snd (process self api ex w)) = trace ?w4 @ []" by (simp add: p)
    then show ?thesis using that by force
  next
    case (Inr tweets)
    show ?thesis
    proof (cases "tweets = []")
      case True
      with Inr have "trace (snd (process self api ex w)) = trace ?w4 @ []" by (simp add: p)
      then show ?thesis using that by force
    next
      case False
      with Inr have "process self api ex w = process_tweets ex tweets [] ?w4" by (simp add: p)
      then show ?thesis using that trace_process_tweets [of ex tweets "[]" ?w4] by metis
    qed
  qed
  show "\<exists>since evs. trace (snd (process self api ex w)) =
           trace w @ [GetUserTimelineCall (screen_name self) None 1,
                      GetUserTimelineCall (screen_name self) None 1,
                      MetadataSet SINCE_ID_KEY (str_int c),
                      GetStatusCall c,
                      GetUserTimelineCall (screen_name self) since (count self)] @ evs
           \<and> (\<forall>e \<in> set evs. is_extraction e)"
  proof (intro exI conjI)
    show "trace (snd (process self api ex w)) =
           trace w @ [GetUserTimelineCall (screen_name self) None 1,
                      GetUserTimelineCall (screen_name self) None 1,
                      MetadataSet SINCE_ID_KEY (str_int c),
                      GetStatusCall c,
                      GetUserTimelineCall (screen_name self) ?since (count self)] @ evs"
      using evs(1) by (simp only: tr4 append_assoc)
    show "\<forall>e \<in> set evs. is_extraction e" by (rule evs(2))
  qed
  show "metadata_store (snd (process self api ex w)) = (metadata_store w)(SINCE_ID_KEY \<mapsto> str_int c)"
  proof (cases ?r)
    case (Inl te)
    then show ?thesis by (simp add: p)
  next
    case (Inr tweets)
    then show ?thesis by (cases "tweets = []") (simp_all add: p)
  qed
  show "\<forall>m. fst (process self api ex w) \<noteq> Inl (RuntimeError m)"
  proof (cases ?r)
    case (Inl te)
    then show ?thesis by (simp add: p)
  next
    case (Inr tweets)
    show ?thesis
    proof (cases "tweets = []")
      case True
      with Inr show ?thesis by (simp add: p)
    next
      case False
      with Inr have "process self api ex w = process_tweets ex tweets [] ?w4" by (simp add: p)
      then show ?thesis using process_tweets_error [of ex tweets "[]" ?w4] by auto
    qed
  qed
qed

lemma screen_name_TwitterMediaScraper: "screen_name (TwitterMediaScraper sn) = sn"
  by (simp add: TwitterMediaScraper_def)

lemma count_TwitterMediaScraper: "count (TwitterMediaScraper sn) = 200"
  by (simp add: TwitterMediaScraper_def)

lemma str_int_100: "str_int 100 = ''100''"
  by (simp add: str_int_def str_nat.simps digit_char_def char_of_def bit_0)

lemma bootstrap_then_rate_limit:
  "process (TwitterMediaScraper ''acct1'') (fake_api single_timeline 3 ''Rate limit exceeded'')
      example_extractor fresh_world =
     (Inl (TwitterError ''Rate limit exceeded''),
      log_event (GetUserTimelineCall ''acct1'' (Some 100) 200)
        (log_event (GetStatusCall 100)
          (metadata_set SINCE_ID_KEY ''100''
            (log_event (GetUserTimelineCall ''acct1'' None 1)
              (log_event (GetUserTimelineCall ''acct1'' None 1) fresh_world)))))"
proof -
  let ?api = "fake_api single_timeline 3 ''Rate limit exceeded''"
  let ?self = "TwitterMediaScraper ''acct1''"
  have s: "metadata_store fresh_world SINCE_ID_KEY = None"
    by (simp add: fresh_world_simps)
  have a0: "GetUserTimeline ?api (api_calls (trace fresh_world)) ''acct1'' None 1 =
              Inr [tweet 100 1 [''a.jpg'']]"
    by (simp add: GetUserTimeline_fake_api fresh_world_simps single_timeline_def)
  have a1: "GetUserTimeline ?api (Suc (api_calls (trace fresh_world))) ''acct1'' None 1 =
              Inr (tweet 100 1 [''a.jpg''] # [])"
    by (simp add: GetUserTimeline_fake_api fresh_world_simps single_timeline_def)
  have c: "status_id (tweet 100 1 [''a.jpg'']) = 100"
    by (simp add: tweet_def)
  have g: "GetStatus ?api (Suc (Suc (api_calls (trace fresh_world)))) 100 = Inr (tweet 100 1 [''a.jpg''])"
    by (simp add: GetStatus_fake_api fresh_world_simps single_timeline_def tweet_def)
  have f: "GetUserTimeline ?api (Suc (Suc (Suc (api_calls (trace fresh_world))))) ''acct1''
             (Some 100) 200 = Inl ''Rate limit exceeded''"
    by (simp add: GetUserTimeline_fake_api fresh_world_simps)
  note p = process_bootstrap [of fresh_world ?api ?self, unfolded screen_name_TwitterMediaScraper
      count_TwitterMediaScraper, OF s a0 a1 refl refl refl, of example_extractor]
  show ?thesis
    by (simp add: p c g f str_int_100)
qed

lemma bootstrap_fetch_raises:
  "fst (process (TwitterMediaScraper ''acct1'') (fake_api single_timeline 1 ''Over capacity'')
      example_extractor fresh_world) = Inl (TwitterError ''Over capacity'')"
proof -
  have s: "metadata_store fresh_world SINCE_ID_KEY = None"
    by (simp add: fresh_world_simps)
  have a0: "GetUserTimeline (fake_api single_timeline 1 ''Over capacity'') (api_calls (trace fresh_world))
              (screen_name (TwitterMediaScraper ''acct1'')) None 1 = Inr [tweet 100 1 [''a.jpg'']]"
    by (simp add: GetUserTimeline_fake_api fresh_world_simps single_timeline_def)
  have a1: "GetUserTimeline (fake_api single_timeline 1 ''Over capacity'') (Suc (api_calls (trace fresh_world)))
              (screen_name (TwitterMediaScraper ''acct1'')) None 1 = Inl ''Over capacity''"
    by (simp add: GetUserTimeline_fake_api fresh_world_simps)
  show ?thesis
    using process_bootstrap_failure [OF s a0, of example_extractor, unfolded a1 sum.case] by simp
qed

text \<open>
  C5, as stated, fails in its equivalence: a run without a stored cursor can raise although
  the bootstrap fetch returned an item (a later call raises), and it raises when the
  bootstrap fetch itself raises, which returns no list at all.
\<close>

theorem bootstrap_behaviour_counterexample:
  "metadata_store fresh_world SINCE_ID_KEY = None
   \<and> GetUserTimeline (fake_api single_timeline 3 ''Rate limit exceeded'') (Suc (api_calls (trace fresh_world)))
        ''acct1'' None 1 = Inr [tweet 100 1 [''a.jpg'']]
   \<and> fst (process (TwitterMediaScraper ''acct1'') (fake_api single_timeline 3 ''Rate limit exceeded'')
          example_extractor fresh_world) = Inl (TwitterError ''Rate limit exceeded'')
   \<and> GetUserTimeline (fake_api single_timeline 1 ''Over capacity'') (Suc (api_calls (trace fresh_world)))
        ''acct1'' None 1 = Inl ''Over capacity''
   \<and> fst (process (TwitterMediaScraper ''acct1'') (fake_api single_timeline 1 ''Over capacity'')
          example_extractor fresh_world) = Inl (TwitterError ''Over capacity'')"
proof -
  have "GetUserTimeline (fake_api single_timeline 3 ''Rate limit exceeded'') (Suc (api_calls (trace fresh_world)))
        ''acct1'' None 1 = Inr [tweet 100 1 [''a.jpg'']]"
    by (simp add: GetUserTimeline_fake_api fresh_world_simps single_timeline_def)
  moreover have "GetUserTimeline (fake_api single_timeline 1 ''Over capacity'')
        (Suc (api_calls (trace fresh_world))) ''acct1'' None 1 = Inl ''Over capacity''"
    by (simp add: GetUserTimeline_fake_api fresh_world_simps)
  moreover have "fst (process (TwitterMediaScraper ''acct1'') (fake_api single_timeline 3 ''Rate limit exceeded'')
          example_extractor fresh_world) = Inl (TwitterError ''Rate limit exceeded'')"
    by (simp add: bootstrap_then_rate_limit)
  moreover have "metadata_store fresh_world SINCE_ID_KEY = None"
    by (simp add: fresh_world_simps)
  ultimately show ?thesis
    using bootstrap_fetch_raises by blast
qed

text \<open>
  C5, amended. In a run that starts with no stored cursor and gets past the first
  one-item call, the next call fetches the single latest tweet (count 1, no
  \<open>since_id\<close>). The run raises the bootstrap error (the \<^verbatim>\<open>RuntimeError\<close> of line 80) exactly
  when that fetch returns the empty list, and raises the upstream error when that fetch
  itself raises; in both cases the store is untouched. When the fetch returns tweets, the
  decimal text of the (largest) id is stored under \<open>since_id\<close> directly after the two
  one-item calls, before the lookup and before any larger fetch; what the run does
  afterwards, including a later error, is not part of this statement.
\<close>

theorem bootstrap_behaviour:
  assumes "metadata_store w SINCE_ID_KEY = None"
    and "GetUserTimeline api (api_calls (trace w)) (screen_name self) None 1 = Inr ts0"
  shows "take 2 (drop (length (trace w)) (trace (snd (process self api ex w)))) =
           [GetUserTimelineCall (screen_name self) None 1, GetUserTimelineCall (screen_name self) None 1]
     \<and> (fst (process self api ex w) =
          Inl (RuntimeError ''Cannot obtain the initial tweets in order to get the initial since_id'')
        \<longleftrightarrow> GetUserTimeline api (Suc (api_calls (trace w))) (screen_name self) None 1 = Inr [])
     \<and> (GetUserTimeline api (Suc (api_calls (trace w))) (screen_name self) None 1 = Inr []
        \<longrightarrow> metadata_store (snd (process self api ex w)) = metadata_store w)
     \<and> (\<forall>te. GetUserTimeline api (Suc (api_calls (trace w))) (screen_name self) None 1 = Inl te
        \<longrightarrow> fst (process self api ex w) = Inl (TwitterError te)
            \<and> metadata_store (snd (process self api ex w)) = metadata_store w)
     \<and> (\<forall>t ts. GetUserTimeline api (Suc (api_calls (trace w))) (screen_name self) None 1 = Inr (t # ts)
        \<longrightarrow> take 3 (drop (length (trace w)) (trace (snd (process self api ex w)))) =
              [GetUserTimelineCall (screen_name self) None 1, GetUserTimelineCall (screen_name self) None 1,
               MetadataSet SINCE_ID_KEY (str_int (status_id (max_by status_id t ts)))]
            \<and> metadata_store (snd (process self api ex w)) SINCE_ID_KEY =
                Some (str_int (status_id (max_by status_id t ts))))"
proof (cases "GetUserTimeline api (Suc (api_calls (trace w))) (screen_name self) None 1")
  case (Inl te)
  then show ?thesis using process_bootstrap_failure [OF assms, of ex] by simp
next
  case (Inr init_tweets)
  show ?thesis
  proof (cases init_tweets)
    case Nil
    with Inr show ?thesis using process_bootstrap_failure [OF assms, of ex] by simp
  next
    case (Cons t ts)
    with Inr have r: "GetUserTimeline api (Suc (api_calls (trace w))) (screen_name self) None 1 = Inr (t # ts)"
      by simp
    note b = trace_process_bootstrap [OF assms r refl, of ex]
    from b(1) obtain since evs where tr: "trace (snd (process self api ex w)) =
           trace w @ [GetUserTimelineCall (screen_name self) None 1,
                      GetUserTimelineCall (screen_name self) None 1,
                      MetadataSet SINCE_ID_KEY (str_int (status_id (max_by status_id t ts))),
                      GetStatusCall (status_id (max_by status_id t ts)),
                      GetUserTimelineCall (screen_name self) since (count self)] @ evs"
      by blast
    show ?thesis using r b(2) b(3) by (simp add: tr)
  qed
qed

theorem bootstrap_behaviour_witness:
  "metadata_store fresh_world SINCE_ID_KEY = None
   \<and> GetUserTimeline (fake_api [tweet 100 1 []] 10 ''Over capacity'') (api_calls (trace fresh_world))
        (screen_name (TwitterMediaScraper ''acct1'')) None 1 = Inr [tweet 100 1 []]
   \<and> GetUserTimeline (fake_api [tweet 100 1 []] 10 ''Over capacity'') (Suc (api_calls (trace fresh_world)))
        (screen_name (TwitterMediaScraper ''acct1'')) None 1 = Inr [tweet 100 1 []]
   \<and> take 3 (drop (length (trace fresh_world)) (trace (snd (process (TwitterMediaScraper ''acct1'')
        (fake_api [tweet 100 1 []] 10 ''Over capacity'') example_extractor fresh_world)))) =
      [GetUserTimelineCall ''acct1'' None 1, GetUserTimelineCall ''acct1'' None 1,
       MetadataSet SINCE_ID_KEY ''100'']
   \<and> metadata_store (snd (process (TwitterMediaScraper ''acct1'')
        (fake_api [tweet 100 1 []] 10 ''Over capacity'') example_extractor fresh_world)) SINCE_ID_KEY = Some ''100''
   \<and> fst (process (TwitterMediaScraper ''acct1'')
        (fake_api [tweet 100 1 []] 10 ''Over capacity'') example_extractor fresh_world) \<noteq>
      Inl (RuntimeError ''Cannot obtain the initial tweets in order to get the initial since_id'')
   \<and> GetUserTimeline (fake_api [] 10 ''Over capacity'') (api_calls (trace fresh_world))
        (screen_name (TwitterMediaScraper ''acct1'')) None 1 = Inr []
   \<and> GetUserTimeline (fake_api [] 10 ''Over capacity'') (Suc (api_calls (trace fresh_world)))
        (screen_name (TwitterMediaScraper ''acct1'')) None 1 = Inr []
   \<and> fst (process (TwitterMediaScraper ''acct1'') (fake_api [] 10 ''Over capacity'')
        example_extractor fresh_world) =
      Inl (RuntimeError ''Cannot obtain the initial tweets in order to get the initial since_id'')
   \<and> metadata_store (snd (process (TwitterMediaScraper ''acct1'') (fake_api [] 10 ''Over capacity'')
        example_extractor fresh_world)) = metadata_store fresh_world
   \<and> GetUserTimeline (fake_api single_timeline 1 ''Over capacity'') (api_calls (trace fresh_world))
        (screen_name (TwitterMediaScraper ''acct1'')) None 1 = Inr [tweet 100 1 [''a.jpg'']]
   \<and> GetUserTimeline (fake_api single_timeline 1 ''Over capacity'') (Suc (api_calls (trace fresh_world)))
        (screen_name (TwitterMediaScraper ''acct1'')) None 1 = Inl ''Over capacity''
   \<and> fst (process (TwitterMediaScraper ''acct1'') (fake_api single_timeline 1 ''Over capacity'')
        example_extractor fresh_world) = Inl (TwitterError ''Over capacity'')
   \<and> metadata_store (snd (process (TwitterMediaScraper ''acct1'') (fake_api single_timeline 1 ''Over capacity'')
        example_extractor fresh_world)) = metadata_store fresh_world"
proof -
  have s: "metadata_store fresh_world SINCE_ID_KEY = None"
    by (simp add: fresh_world_simps)
  have a0: "GetUserTimeline (fake_api [tweet 100 1 []] 10 ''Over capacity'') (api_calls (trace fresh_world))
        (screen_name (TwitterMediaScraper ''acct1'')) None 1 = Inr [tweet 100 1 []]"
    by (simp add: GetUserTimeline_fake_api fresh_world_simps)
  have a1: "GetUserTimeline (fake_api [tweet 100 1 []] 10 ''Over capacity'') (Suc (api_calls (trace fresh_world)))
        (screen_name (TwitterMediaScraper ''acct1'')) None 1 = Inr [tweet 100 1 []]"
    by (simp add: GetUserTimeline_fake_api fresh_world_simps)
  have b0: "GetUserTimeline (fake_api [] 10 ''Over capacity'') (api_calls (trace fresh_world))
        (screen_name (TwitterMediaScraper ''acct1'')) None 1 = Inr []"
    by (simp add: GetUserTimeline_fake_api fresh_world_simps)
  have b1: "GetUserTimeline (fake_api [] 10 ''Over capacity'') (Suc (api_calls (trace fresh_world)))
        (screen_name (TwitterMediaScraper ''acct1'')) None 1 = Inr []"
    by (simp add: GetUserTimeline_fake_api fresh_world_simps)
  have m: "str_int (status_id (max_by status_id (tweet 100 1 []) [])) = ''100''"
    by (simp add: tweet_def str_int_100)
  note one = bootstrap_behaviour [OF s a0, of example_extractor]
  note two = bootstrap_behaviour [OF s b0, of example_extractor]
  from one have one3: "take 3 (drop (length (trace fresh_world)) (trace (snd (process (TwitterMediaScraper ''acct1'')
        (fake_api [tweet 100 1 []] 10 ''Over capacity'') example_extractor fresh_world)))) =
      [GetUserTimelineCall ''acct1'' None 1, GetUserTimelineCall ''acct1'' None 1,
       MetadataSet SINCE_ID_KEY ''100'']
     \<and> metadata_store (snd (process (TwitterMediaScraper ''acct1'')
        (fake_api [tweet 100 1 []] 10 ''Over capacity'') example_extractor fresh_world)) SINCE_ID_KEY = Some ''100''"
    using a1 m by (simp add: screen_name_TwitterMediaScraper)
  from one have one2: "fst (process (TwitterMediaScraper ''acct1'')
        (fake_api [tweet 100 1 []] 10 ''Over capacity'') example_extractor fresh_world) \<noteq>
      Inl (RuntimeError ''Cannot obtain the initial tweets in order to get the initial since_id'')"
    using a1 by simp
  from two have two1: "fst (process (TwitterMediaScraper ''acct1'') (fake_api [] 10 ''Over capacity'')
        example_extractor fresh_world) =
      Inl (RuntimeError ''Cannot obtain the initial tweets in order to get the initial since_id'')
   \<and> metadata_store (snd (process (TwitterMediaScraper ''acct1'') (fake_api [] 10 ''Over capacity'')
        example_extractor fresh_world)) = metadata_store fresh_world"
    using b1 by simp
  have c0: "GetUserTimeline (fake_api single_timeline 1 ''Over capacity'') (api_calls (trace fresh_world))
        (screen_name (TwitterMediaScraper ''acct1'')) None 1 = Inr [tweet 100 1 [''a.jpg'']]"
    by (simp add: GetUserTimeline_fake_api fresh_world_simps single_timeline_def)
  have c1: "GetUserTimeline (fake_api single_timeline 1 ''Over capacity'') (Suc (api_calls (trace fresh_world)))
        (screen_name (TwitterMediaScraper ''acct1'')) None 1 = Inl ''Over capacity''"
    by (simp add: GetUserTimeline_fake_api fresh_world_simps)
  from bootstrap_behaviour [OF s c0, of example_extractor] c1
  have three: "fst (process (TwitterMediaScraper ''acct1'') (fake_api single_timeline 1 ''Over capacity'')
        example_extractor fresh_world) = Inl (TwitterError ''Over capacity'')
   \<and> metadata_store (snd (process (TwitterMediaScraper ''acct1'') (fake_api single_timeline 1 ''Over capacity'')
        example_extractor fresh_world)) = metadata_store fresh_world"
    by blast
  show ?thesis using s a0 a1 b0 b1 one3 one2 two1 c0 c1 three by blast
qed

section \<open>What a run leaves in the metadata store\<close>

lemma probe_frame:
  "metadata_store (snd (probe self api w)) = metadata_store w"
  "content_store (snd (probe self api w)) = content_store w"
  "filter is_extraction (trace (snd (probe self api w))) = filter is_extraction (trace w)"
  "filter is_metadata_set (trace (snd (probe self api w))) = filter is_metadata_set (trace w)"
  by (simp_all add: probe_def call_GetUserTimeline_def split: sum.splits)

lemma initialize_since_id_frame:
  "content_store (snd (initialize_since_id self api w)) = content_store w"
  "filter is_extraction (trace (snd (initialize_since_id self api w))) = filter is_extraction (trace w)"
  by (simp_all add: initialize_since_id_def call_GetUserTimeline_def Let_def split: sum.splits list.splits)

lemma initialize_since_id_existing:
  "metadata_store w SINCE_ID_KEY \<noteq> None \<Longrightarrow> initialize_since_id self api w = (Inr (), w)"
  by (simp add: initialize_since_id_def metadata_exists_def)

lemma initialize_since_id_error:
  "fst (initialize_since_id self api w) = Inl e \<Longrightarrow>
     metadata_store (snd (initialize_since_id self api w)) = metadata_store w
     \<and> filter is_metadata_set (trace (snd (initialize_since_id self api w))) = filter is_metadata_set (trace w)"
  by (auto simp add: initialize_since_id_def call_GetUserTimeline_def Let_def split: sum.splits list.splits if_splits)

lemma fetch_tweets_frame:
  "metadata_store (snd (fetch_tweets self api w)) = metadata_store w"
  "content_store (snd (fetch_tweets self api w)) = content_store w"
  "filter is_extraction (trace (snd (fetch_tweets self api w))) = filter is_extraction (trace w)"
  "filter is_metadata_set (trace (snd (fetch_tweets self api w))) = filter is_metadata_set (trace w)"
  by (simp_all add: fetch_tweets_def metadata_get_def call_GetStatus_def call_GetUserTimeline_def Let_def
      split: sum.splits option.splits)

lemma process_store_with_cursor:
  assumes "metadata_store w SINCE_ID_KEY \<noteq> None"
  shows "metadata_store (snd (process self api ex w)) = metadata_store w"
    and "filter is_metadata_set (trace (snd (process self api ex w))) = filter is_metadata_set (trace w)"
proof -
  obtain r1 w1 where p: "probe self api w = (r1, w1)" by (cases "probe self api w")
  then have w1: "metadata_store w1 = metadata_store w"
      "filter is_metadata_set (trace w1) = filter is_metadata_set (trace w)"
    using probe_frame(1,4) [of self api w] by simp_all
  with assms have i: "initialize_since_id self api w1 = (Inr (), w1)"
    by (simp add: initialize_since_id_existing)
  obtain r3 w3 where f: "fetch_tweets self api w1 = (r3, w3)" by (cases "fetch_tweets self api w1")
  then have w3: "metadata_store w3 = metadata_store w"
      "filter is_metadata_set (trace w3) = filter is_metadata_set (trace w)"
    using fetch_tweets_frame(1,4) [of self api w1] w1 by simp_all
  show "metadata_store (snd (process self api ex w)) = metadata_store w"
    using p i f w1 w3 by (simp add: process_def split: sum.splits probe_result.splits)
  show "filter is_metadata_set (trace (snd (process self api ex w))) = filter is_metadata_set (trace w)"
    using p i f w1 w3 by (simp add: process_def split: sum.splits probe_result.splits)
qed

lemma process_store_probe_error:
  assumes "isl (GetUserTimeline api (api_calls (trace w)) (screen_name self) None 1)"
  shows "metadata_store (snd (process self api ex w)) = metadata_store w"
    and "filter is_metadata_set (trace (snd (process self api ex w))) = filter is_metadata_set (trace w)"
proof -
  from assms obtain te where "GetUserTimeline api (api_calls (trace w)) (screen_name self) None 1 = Inl te"
    by (cases "GetUserTimeline api (api_calls (trace w)) (screen_name self) None 1") simp_all
  then have "snd (process self api ex w) = log_event (GetUserTimelineCall (screen_name self) None 1) w"
    by (simp add: process_probe_error)
  then show "metadata_store (snd (process self api ex w)) = metadata_store w"
    and "filter is_metadata_set (trace (snd (process self api ex w))) = filter is_metadata_set (trace w)"
    by simp_all
qed

lemma cursor_then_rate_limit:
  "fst (process (TwitterMediaScraper ''acct1'') (fake_api live_timeline 2 ''Rate limit exceeded'')
      example_extractor (world_with_cursor ''500'')) = Inl (TwitterError ''Rate limit exceeded'')"
proof -
  let ?api = "fake_api live_timeline 2 ''Rate limit exceeded''"
  let ?self = "TwitterMediaScraper ''acct1''"
  have s: "metadata_store (world_with_cursor ''500'') SINCE_ID_KEY = Some ''500''"
    by (simp add: world_with_cursor_simps)
  have a0: "GetUserTimeline ?api (api_calls (trace (world_with_cursor ''500''))) ''acct1'' None 1 =
              Inr [tweet 700 30 [''a.jpg'']]"
    by (simp add: GetUserTimeline_fake_api world_with_cursor_simps live_timeline_def)
  have g: "GetStatus ?api (Suc (api_calls (trace (world_with_cursor ''500'')))) 500 =
             Inr (tweet 500 5 [''c.jpg''])"
    by (simp add: GetStatus_fake_api world_with_cursor_simps live_timeline_def tweet_def)
  have f: "GetUserTimeline ?api (Suc (Suc (api_calls (trace (world_with_cursor ''500''))))) ''acct1''
             (Some 500) 200 = Inl ''Rate limit exceeded''"
    by (simp add: GetUserTimeline_fake_api world_with_cursor_simps)
  note p = process_with_cursor [of "world_with_cursor ''500''" "''500''" 500 ?api ?self,
      unfolded screen_name_TwitterMediaScraper count_TwitterMediaScraper,
      OF s py_int_500 a0 refl refl, of example_extractor]
  show ?thesis
    by (simp add: p g f)
qed

text \<open>
  C6, as stated, fails: a run that starts without a cursor writes the bootstrap cursor
  and then fails at the timeline fetch; the error is raised and the cursor stays.
\<close>

theorem fatal_path_cursor_counterexample:
  "fst (process (TwitterMediaScraper ''acct1'') (fake_api single_timeline 3 ''Rate limit exceeded'')
          example_extractor fresh_world) = Inl (TwitterError ''Rate limit exceeded'')
   \<and> metadata_store fresh_world SINCE_ID_KEY = None
   \<and> metadata_store (snd (process (TwitterMediaScraper ''acct1'')
          (fake_api single_timeline 3 ''Rate limit exceeded'') example_extractor fresh_world)) SINCE_ID_KEY =
       Some ''100''"
  by (simp add: bootstrap_then_rate_limit fresh_world_simps)

text \<open>
  C6, amended. For a run that ends with an error, the metadata store at the end equals
  the store at the start when the run started with a stored cursor, and when the first
  one-item call raised. When the run started without a cursor and got past that call,
  the store is unchanged if the bootstrap fetch raised or returned nothing, and
  otherwise holds exactly the bootstrap cursor in addition.
\<close>

theorem fatal_path_cursor:
  assumes "fst (process self api ex w) = Inl e"
  shows "(metadata_store w SINCE_ID_KEY \<noteq> None
            \<longrightarrow> metadata_store (snd (process self api ex w)) = metadata_store w)
       \<and> (isl (GetUserTimeline api (api_calls (trace w)) (screen_name self) None 1)
            \<longrightarrow> metadata_store (snd (process self api ex w)) = metadata_store w)
       \<and> (metadata_store w SINCE_ID_KEY = None
            \<and> \<not> isl (GetUserTimeline api (api_calls (trace w)) (screen_name self) None 1)
            \<longrightarrow> (case GetUserTimeline api (Suc (api_calls (trace w))) (screen_name self) None 1 of
                   Inr (t # ts) \<Rightarrow>
                     metadata_store (snd (process self api ex w)) =
                       (metadata_store w)(SINCE_ID_KEY \<mapsto> str_int (status_id (max_by status_id t ts)))
                 | _ \<Rightarrow> metadata_store (snd (process self api ex w)) = metadata_store w))"
proof (intro conjI impI)
  assume "metadata_store w SINCE_ID_KEY \<noteq> None"
  then show "metadata_store (snd (process self api ex w)) = metadata_store w"
    by (rule process_store_with_cursor(1))
next
  assume "isl (GetUserTimeline api (api_calls (trace w)) (screen_name self) None 1)"
  then show "metadata_store (snd (process self api ex w)) = metadata_store w"
    by (rule process_store_probe_error(1))
next
  assume a: "metadata_store w SINCE_ID_KEY = None
            \<and> \<not> isl (GetUserTimeline api (api_calls (trace w)) (screen_name self) None 1)"
  then obtain ts0 where p: "GetUserTimeline api (api_calls (trace w)) (screen_name self) None 1 = Inr ts0"
    by (cases "GetUserTimeline api (api_calls (trace w)) (screen_name self) None 1") simp_all
  from a have n: "metadata_store w SINCE_ID_KEY = None" by simp
  show "case GetUserTimeline api (Suc (api_calls (trace w))) (screen_name self) None 1 of
          Inr (t # ts) \<Rightarrow>
            metadata_store (snd (process self api ex w)) =
              (metadata_store w)(SINCE_ID_KEY \<mapsto> str_int (status_id (max_by status_id t ts)))
        | _ \<Rightarrow> metadata_store (snd (process self api ex w)) = metadata_store w"
  proof (cases "GetUserTimeline api (Suc (api_calls (trace w))) (screen_name self) None 1")
    case (Inl te)
    then show ?thesis using process_bootstrap_failure [OF n p, of ex] by simp
  next
    case (Inr init_tweets)
    show ?thesis
    proof (cases init_tweets)
      case Nil
      with Inr show ?thesis using process_bootstrap_failure [OF n p, of ex] by simp
    next
      case (Cons t ts)
      with Inr show ?thesis using trace_process_bootstrap(2) [OF n p _ refl, of t ts ex] by simp
    qed
  qed
qed

theorem fatal_path_cursor_witness:
  "fst (process (TwitterMediaScraper ''acct1'') (fake_api live_timeline 2 ''Rate limit exceeded'')
      example_extractor (world_with_cursor ''500'')) = Inl (TwitterError ''Rate limit exceeded'')
   \<and> metadata_store (world_with_cursor ''500'') SINCE_ID_KEY \<noteq> None
   \<and> metadata_store (snd (process (TwitterMediaScraper ''acct1'')
        (fake_api live_timeline 2 ''Rate limit exceeded'') example_extractor (world_with_cursor ''500''))) =
      metadata_store (world_with_cursor ''500'')
   \<and> fst (process (TwitterMediaScraper ''acct1'') (fake_api [] 0 ''Rate limit exceeded'')
      example_extractor fresh_world) = Inl (TwitterError ''Rate limit exceeded'')
   \<and> isl (GetUserTimeline (fake_api [] 0 ''Rate limit exceeded'') (api_calls (trace fresh_world))
        (screen_name (TwitterMediaScraper ''acct1'')) None 1)
   \<and> metadata_store (snd (process (TwitterMediaScraper ''acct1'') (fake_api [] 0 ''Rate limit exceeded'')
        example_extractor fresh_world)) = metadata_store fresh_world
   \<and> fst (process (TwitterMediaScraper ''acct1'') (fake_api single_timeline 3 ''Rate limit exceeded'')
      example_extractor fresh_world) = Inl (TwitterError ''Rate limit exceeded'')
   \<and> metadata_store fresh_world SINCE_ID_KEY = None
   \<and> \<not> isl (GetUserTimeline (fake_api single_timeline 3 ''Rate limit exceeded'')
        (api_calls (trace fresh_world)) (screen_name (TwitterMediaScraper ''acct1'')) None 1)
   \<and> metadata_store (snd (process (TwitterMediaScraper ''acct1'')
        (fake_api single_timeline 3 ''Rate limit exceeded'') example_extractor fresh_world)) =
      (metadata_store fresh_world)(SINCE_ID_KEY \<mapsto> ''100'')"
proof -
  have b0: "GetUserTimeline (fake_api [] 0 ''Rate limit exceeded'') (api_calls (trace fresh_world))
        (screen_name (TwitterMediaScraper ''acct1'')) None 1 = Inl ''Rate limit exceeded''"
    by (simp add: GetUserTimeline_fake_api)
  have fb: "fst (process (TwitterMediaScraper ''acct1'') (fake_api [] 0 ''Rate limit exceeded'')
      example_extractor fresh_world) = Inl (TwitterError ''Rate limit exceeded'')"
    using lower_rate_limit by (simp add: process_probe_error [OF b0])
  have fc: "fst (process (TwitterMediaScraper ''acct1'') (fake_api single_timeline 3 ''Rate limit exceeded'')
      example_extractor fresh_world) = Inl (TwitterError ''Rate limit exceeded'')"
    by (simp add: bootstrap_then_rate_limit)
  have c0: "GetUserTimeline (fake_api single_timeline 3 ''Rate limit exceeded'')
        (api_calls (trace fresh_world)) (screen_name (TwitterMediaScraper ''acct1'')) None 1 =
        Inr [tweet 100 1 [''a.jpg'']]"
    by (simp add: GetUserTimeline_fake_api fresh_world_simps single_timeline_def)
  have c1: "GetUserTimeline (fake_api single_timeline 3 ''Rate limit exceeded'')
        (Suc (api_calls (trace fresh_world))) (screen_name (TwitterMediaScraper ''acct1'')) None 1 =
        Inr [tweet 100 1 [''a.jpg'']]"
    by (simp add: GetUserTimeline_fake_api fresh_world_simps single_timeline_def)
  have sa: "metadata_store (world_with_cursor ''500'') SINCE_ID_KEY \<noteq> None"
    by (simp add: world_with_cursor_simps)
  have sc: "metadata_store fresh_world SINCE_ID_KEY = None"
    by (simp add: fresh_world_simps)
  have m: "str_int (status_id (tweet 100 1 [''a.jpg''])) = ''100''"
    by (simp add: tweet_def str_int_100)
  from fatal_path_cursor [OF cursor_then_rate_limit] sa
  have A: "metadata_store (snd (process (TwitterMediaScraper ''acct1'')
        (fake_api live_timeline 2 ''Rate limit exceeded'') example_extractor (world_with_cursor ''500''))) =
      metadata_store (world_with_cursor ''500'')"
    by blast
  from fatal_path_cursor [OF fb] b0
  have B: "metadata_store (snd (process (TwitterMediaScraper ''acct1'') (fake_api [] 0 ''Rate limit exceeded'')
        example_extractor fresh_world)) = metadata_store fresh_world"
    by simp
  from fatal_path_cursor [OF fc] sc c0 c1
  have C: "metadata_store (snd (process (TwitterMediaScraper ''acct1'')
        (fake_api single_timeline 3 ''Rate limit exceeded'') example_extractor fresh_world)) =
      (metadata_store fresh_world)(SINCE_ID_KEY \<mapsto> ''100'')"
    by (simp add: m)
  show ?thesis
    using cursor_then_rate_limit sa A fb b0 B fc sc c0 C by simp
qed

section \<open>An empty fetch\<close>

lemma probe_Proceed:
  "probe self api w = (Inr Proceed, w1) \<Longrightarrow>
     w1 = log_event (GetUserTimelineCall (screen_name self) None 1) w"
  by (auto simp add: probe_def call_GetUserTimeline_def split: sum.splits if_splits)

lemma post_process_Nil [simp]: "post_process ex w [] = w"
  by (simp add: post_process_def)

lemma bootstrap_then_caught_up:
  "process (TwitterMediaScraper ''acct1'') (fake_api single_timeline 10 ''Over capacity'')
      example_extractor fresh_world =
     (Inr [],
      log_event (GetUserTimelineCall ''acct1'' (Some 100) 200)
        (log_event (GetStatusCall 100)
          (metadata_set SINCE_ID_KEY ''100''
            (log_event (GetUserTimelineCall ''acct1'' None 1)
              (log_event (GetUserTimelineCall ''acct1'' None 1) fresh_world)))))"
proof -
  let ?api = "fake_api single_timeline 10 ''Over capacity''"
  let ?self = "TwitterMediaScraper ''acct1''"
  have s: "metadata_store fresh_world SINCE_ID_KEY = None"
    by (simp add: fresh_world_simps)
  have a0: "GetUserTimeline ?api (api_calls (trace fresh_world)) ''acct1'' None 1 =
              Inr [tweet 100 1 [''a.jpg'']]"
    by (simp add: GetUserTimeline_fake_api fresh_world_simps single_timeline_def)
  have a1: "GetUserTimeline ?api (Suc (api_calls (trace fresh_world))) ''acct1'' None 1 =
              Inr (tweet 100 1 [''a.jpg''] # [])"
    by (simp add: GetUserTimeline_fake_api fresh_world_simps single_timeline_def)
  have c: "status_id (tweet 100 1 [''a.jpg'']) = 100"
    by (simp add: tweet_def)
  have g: "GetStatus ?api (Suc (Suc (api_calls (trace fresh_world)))) 100 = Inr (tweet 100 1 [''a.jpg''])"
    by (simp add: GetStatus_fake_api fresh_world_simps single_timeline_def tweet_def)
  have f: "GetUserTimeline ?api (Suc (Suc (Suc (api_calls (trace fresh_world))))) ''acct1''
             (Some 100) 200 = Inr []"
    by (simp add: GetUserTimeline_fake_api fresh_world_simps single_timeline_def tweet_def)
  note p = process_bootstrap [of fresh_world ?api ?self, unfolded screen_name_TwitterMediaScraper
      count_TwitterMediaScraper, OF s a0 a1 refl refl refl, of example_extractor]
  show ?thesis
    by (simp add: p c g f str_int_100)
qed

text \<open>
  C7, as stated, fails: a run that starts without a stored cursor writes the bootstrap
  cursor, finds no tweets after it, and returns the empty list; the store has changed.
\<close>

theorem empty_fetch_no_op_counterexample:
  "GetUserTimeline (fake_api single_timeline 10 ''Over capacity'')
      (Suc (Suc (Suc (api_calls (trace fresh_world))))) ''acct1'' (Some 100) 200 = Inr []
   \<and> fst (run (TwitterMediaScraper ''acct1'') (fake_api single_timeline 10 ''Over capacity'')
          example_extractor fresh_world) = Inr []
   \<and> metadata_store fresh_world SINCE_ID_KEY = None
   \<and> metadata_store (snd (run (TwitterMediaScraper ''acct1'') (fake_api single_timeline 10 ''Over capacity'')
          example_extractor fresh_world)) SINCE_ID_KEY = Some ''100''"
proof -
  have "GetUserTimeline (fake_api single_timeline 10 ''Over capacity'')
      (Suc (Suc (Suc (api_calls (trace fresh_world))))) ''acct1'' (Some 100) 200 = Inr []"
    by (simp add: GetUserTimeline_fake_api fresh_world_simps single_timeline_def tweet_def)
  moreover have "metadata_store fresh_world SINCE_ID_KEY = None"
    by (simp add: fresh_world_simps)
  moreover have "fst (run (TwitterMediaScraper ''acct1'') (fake_api single_timeline 10 ''Over capacity'')
          example_extractor fresh_world) = Inr []"
    by (simp add: run_def bootstrap_then_caught_up)
  moreover have "metadata_store (snd (run (TwitterMediaScraper ''acct1'')
          (fake_api single_timeline 10 ''Over capacity'') example_extractor fresh_world)) SINCE_ID_KEY =
        Some ''100''"
    by (simp add: run_def bootstrap_then_caught_up)
  ultimately show ?thesis by blast
qed

text \<open>
  C7, amended. When the first one-item call and the initialisation of \<open>since_id\<close> have
  gone through and the fetch that follows yields no tweets, the run returns the empty
  list at once: no extraction hook is called, \<^verbatim>\<open>post_process\<close> does nothing, the content
  store is as at the start, and the metadata store is as the initialisation left it.
  It is the store of the start when the run started with a stored cursor; otherwise it
  holds the cursor the initialisation has just written.
\<close>

theorem empty_fetch_no_op:
  assumes "probe self api w = (Inr Proceed, w1)"
    and "initialize_since_id self api w1 = (Inr (), w2)"
    and "fetch_tweets self api w2 = (Inr [], w3)"
  shows "run self api ex w = (Inr [], w3)
       \<and> filter is_extraction (trace w3) = filter is_extraction (trace w)
       \<and> content_store w3 = content_store w
       \<and> metadata_store w3 = metadata_store w2
       \<and> (metadata_store w SINCE_ID_KEY \<noteq> None \<longrightarrow> metadata_store w3 = metadata_store w)"
proof -
  have p: "process self api ex w = (Inr [], w3)"
    using assms by (simp add: process_def)
  have r: "run self api ex w = (Inr [], w3)"
    by (simp add: run_def p)
  have e: "filter is_extraction (trace w3) = filter is_extraction (trace w)"
    using probe_frame(3) [of self api w] initialize_since_id_frame(2) [of self api w1]
      fetch_tweets_frame(3) [of self api w2] assms by simp
  have c: "content_store w3 = content_store w"
    using probe_frame(2) [of self api w] initialize_since_id_frame(1) [of self api w1]
      fetch_tweets_frame(2) [of self api w2] assms by simp
  have m: "metadata_store w3 = metadata_store w2"
    using fetch_tweets_frame(1) [of self api w2] assms by simp
  have k: "metadata_store w SINCE_ID_KEY \<noteq> None \<longrightarrow> metadata_store w3 = metadata_store w"
  proof
    assume a: "metadata_store w SINCE_ID_KEY \<noteq> None"
    have w1: "metadata_store w1 = metadata_store w"
      using probe_frame(1) [of self api w] assms by simp
    with a have "initialize_since_id self api w1 = (Inr (), w1)"
      by (simp add: initialize_since_id_existing)
    with assms have "w2 = w1" by simp
    with m w1 show "metadata_store w3 = metadata_store w" by simp
  qed
  show ?thesis using r e c m k by blast
qed

theorem empty_fetch_no_op_witness:
  "probe (TwitterMediaScraper ''acct1'') (fake_api caught_up_timeline 10 ''Over capacity'')
      (world_with_cursor ''500'') =
     (Inr Proceed, log_event (GetUserTimelineCall ''acct1'' None 1) (world_with_cursor ''500''))
   \<and> initialize_since_id (TwitterMediaScraper ''acct1'') (fake_api caught_up_timeline 10 ''Over capacity'')
      (log_event (GetUserTimelineCall ''acct1'' None 1) (world_with_cursor ''500'')) =
     (Inr (), log_event (GetUserTimelineCall ''acct1'' None 1) (world_with_cursor ''500''))
   \<and> fetch_tweets (TwitterMediaScraper ''acct1'') (fake_api caught_up_timeline 10 ''Over capacity'')
      (log_event (GetUserTimelineCall ''acct1'' None 1) (world_with_cursor ''500'')) =
     (Inr [], log_event (GetUserTimelineCall ''acct1'' (Some 500) 200)
                (log_event (GetStatusCall 500)
                  (log_event (GetUserTimelineCall ''acct1'' None 1) (world_with_cursor ''500''))))
   \<and> metadata_store (world_with_cursor ''500'') SINCE_ID_KEY \<noteq> None
   \<and> run (TwitterMediaScraper ''acct1'') (fake_api caught_up_timeline 10 ''Over capacity'')
        example_extractor (world_with_cursor ''500'') =
     (Inr [], log_event (GetUserTimelineCall ''acct1'' (Some 500) 200)
                (log_event (GetStatusCall 500)
                  (log_event (GetUserTimelineCall ''acct1'' None 1) (world_with_cursor ''500''))))
   \<and> metadata_store (log_event (GetUserTimelineCall ''acct1'' (Some 500) 200)
                (log_event (GetStatusCall 500)
                  (log_event (GetUserTimelineCall ''acct1'' None 1) (world_with_cursor ''500'')))) =
      metadata_store (world_with_cursor ''500'')"
proof -
  let ?api = "fake_api caught_up_timeline 10 ''Over capacity''"
  let ?self = "TwitterMediaScraper ''acct1''"
  let ?w = "world_with_cursor ''500''"
  let ?w1 = "log_event (GetUserTimelineCall ''acct1'' None 1) ?w"
  let ?w3 = "log_event (GetUserTimelineCall ''acct1'' (Some 500) 200) (log_event (GetStatusCall 500) ?w1)"
  have p: "probe ?self ?api ?w = (Inr Proceed, ?w1)"
    by (simp add: probe_def call_GetUserTimeline_def GetUserTimeline_fake_api world_with_cursor_simps
        screen_name_TwitterMediaScraper)
  have k: "metadata_store ?w SINCE_ID_KEY \<noteq> None"
    by (simp add: world_with_cursor_simps)
  have i: "initialize_since_id ?self ?api ?w1 = (Inr (), ?w1)"
    by (simp add: initialize_since_id_existing world_with_cursor_simps)
  have f: "fetch_tweets ?self ?api ?w1 = (Inr [], ?w3)"
    by (simp add: fetch_tweets_def metadata_get_def world_with_cursor_simps py_int_500
        call_GetStatus_def call_GetUserTimeline_def GetStatus_fake_api GetUserTimeline_fake_api
        caught_up_timeline_def tweet_def screen_name_TwitterMediaScraper count_TwitterMediaScraper)
  from empty_fetch_no_op [OF p i f, of example_extractor] k
  have "run ?self ?api example_extractor ?w = (Inr [], ?w3) \<and> metadata_store ?w3 = metadata_store ?w"
    by blast
  with p i f k show ?thesis by blast
qed

section \<open>Which document gives the new cursor\<close>

lemma max_by_first_maximum:
  "\<exists>pre m post. b # xs = pre @ m # post \<and> (\<forall>d \<in> set pre. key d < key m)
     \<and> (\<forall>d \<in> set post. key d \<le> key m) \<and> max_by key b xs = m"
proof (induction xs arbitrary: b)
  case Nil
  have "[b] = [] @ b # []" by simp
  then show ?case by force
next
  case (Cons x xs)
  let ?b = "if key b < key x then x else b"
  obtain pre m post where s: "?b # xs = pre @ m # post" "\<forall>d \<in> set pre. key d < key m"
      "\<forall>d \<in> set post. key d \<le> key m" "max_by key ?b xs = m"
    using Cons.IH [of ?b] by blast
  have mx: "max_by key b (x # xs) = m" using s(4) by simp
  have le: "key ?b \<le> key m"
  proof (cases pre)
    case Nil
    with s(1) show ?thesis by simp
  next
    case (Cons p ps)
    with s(1) have "p = ?b" by simp
    with Cons s(2) show ?thesis by simp
  qed
  show ?case
  proof (cases "key b < key x")
    case True
    with s(1) have "b # x # xs = (b # pre) @ m # post" by simp
    moreover from True le s(2) have "\<forall>d \<in> set (b # pre). key d < key m" by simp
    ultimately show ?thesis using s(3) mx by blast
  next
    case False
    show ?thesis
    proof (cases pre)
      case Nil
      with s(1) False have "m = b" "post = xs" by simp_all
      then have "b # x # xs = [] @ m # (x # post)" by simp
      moreover from False \<open>m = b\<close> s(3) have "\<forall>d \<in> set (x # post). key d \<le> key m" by simp
      ultimately show ?thesis using mx by (metis empty_iff list.set(1))
    next
      case (Cons p ps)
      with s(1) False have e: "p = b" "xs = ps @ m # post" by simp_all
      then have "b # x # xs = (b # x # ps) @ m # post" by simp
      moreover from Cons e s(2) False have "\<forall>d \<in> set (b # x # ps). key d < key m" by auto
      ultimately show ?thesis using s(3) mx by blast
    qed
  qed
qed

lemma post_process_Cons:
  "post_process ex w (d # ds) =
     metadata_set SINCE_ID_KEY (document_to_id ex (max_by (document_to_created_at_in_seconds ex) d ds)) w"
  by (simp add: post_process_def)

lemma str_int_200: "str_int 200 = ''200''"
  by (simp add: str_int_def str_nat.simps digit_char_def char_of_def bit_0)

lemma sample_doc_simps:
  "document_to_id example_extractor (sample_doc i secs u) = str_int i"
  "document_to_created_at_in_seconds example_extractor (sample_doc i secs u) = secs"
  by (simp_all add: example_extractor_def sample_doc_def)

lemma documents_of_sample_tweet:
  "media_list_to_documents example_extractor [(tweet i secs urls, u)] = Inr [sample_doc i secs u]"
  by (simp add: example_extractor_def sample_doc_def tweet_def)

text \<open>
  C2, as stated, fails: of two documents with the same creation time, made from the
  tweets 100 and 200, \<^verbatim>\<open>post_process\<close> takes the cursor from the one that comes first in
  the list; with document 100 first, the cursor is the smaller ordinal.
\<close>

theorem tie_break_first_maximum_counterexample:
  "media_list_to_documents example_extractor [(tweet 100 10 [''a.jpg''], ''a.jpg'')] =
     Inr [sample_doc 100 10 ''a.jpg'']
   \<and> media_list_to_documents example_extractor [(tweet 200 10 [''b.jpg''], ''b.jpg'')] =
     Inr [sample_doc 200 10 ''b.jpg'']
   \<and> document_to_created_at_in_seconds example_extractor (sample_doc 100 10 ''a.jpg'') =
     document_to_created_at_in_seconds example_extractor (sample_doc 200 10 ''b.jpg'')
   \<and> metadata_store (post_process example_extractor fresh_world
        [sample_doc 100 10 ''a.jpg'', sample_doc 200 10 ''b.jpg'']) SINCE_ID_KEY = Some ''100''
   \<and> metadata_store (post_process example_extractor fresh_world
        [sample_doc 200 10 ''b.jpg'', sample_doc 100 10 ''a.jpg'']) SINCE_ID_KEY = Some ''200''"
  by (simp add: documents_of_sample_tweet sample_doc_simps post_process_Cons str_int_100 str_int_200)

text \<open>
  C2, amended. For a non-empty list of documents, \<^verbatim>\<open>post_process\<close> stores the identifier
  of the first document, in list order, whose creation time is the maximum: every
  document before it is strictly older, none after it is newer. A tie is therefore
  broken by the position in the list, and the choice is a function of the list.
\<close>

theorem tie_break_first_maximum:
  assumes "docs \<noteq> []"
  shows "\<exists>pre m post. docs = pre @ m # post
           \<and> (\<forall>d \<in> set pre. document_to_created_at_in_seconds ex d < document_to_created_at_in_seconds ex m)
           \<and> (\<forall>d \<in> set post. document_to_created_at_in_seconds ex d \<le> document_to_created_at_in_seconds ex m)
           \<and> metadata_store (post_process ex w docs) SINCE_ID_KEY = Some (document_to_id ex m)"
proof -
  from assms obtain d ds where docs: "docs = d # ds" by (cases docs) auto
  obtain pre m post where s: "d # ds = pre @ m # post"
      "\<forall>x \<in> set pre. document_to_created_at_in_seconds ex x < document_to_created_at_in_seconds ex m"
      "\<forall>x \<in> set post. document_to_created_at_in_seconds ex x \<le> document_to_created_at_in_seconds ex m"
      "max_by (document_to_created_at_in_seconds ex) d ds = m"
    using max_by_first_maximum [of d ds "document_to_created_at_in_seconds ex"] by blast
  have "metadata_store (post_process ex w docs) SINCE_ID_KEY = Some (document_to_id ex m)"
    using docs s(4) by (simp add: post_process_Cons)
  with docs s(1,2,3) show ?thesis by blast
qed

theorem tie_break_first_maximum_witness:
  "[sample_doc 100 10 ''a.jpg'', sample_doc 200 10 ''b.jpg''] \<noteq> []
   \<and> metadata_store (post_process example_extractor fresh_world
        [sample_doc 100 10 ''a.jpg'', sample_doc 200 10 ''b.jpg'']) SINCE_ID_KEY = Some ''100''"
proof -
  let ?a = "sample_doc 100 10 ''a.jpg''" and ?b = "sample_doc 200 10 ''b.jpg''"
  have ne: "[?a, ?b] \<noteq> []" by simp
  obtain pre m post where s: "[?a, ?b] = pre @ m # post"
      "\<forall>d \<in> set pre. document_to_created_at_in_seconds example_extractor d <
          document_to_created_at_in_seconds example_extractor m"
      "metadata_store (post_process example_extractor fresh_world [?a, ?b]) SINCE_ID_KEY =
          Some (document_to_id example_extractor m)"
    using tie_break_first_maximum [OF ne, of example_extractor fresh_world] by blast
  have "m = ?a"
  proof (cases pre)
    case Nil
    with s(1) show ?thesis by simp
  next
    case (Cons p ps)
    with s(1) have p: "p = ?a" "ps @ m # post = [?b]" by simp_all
    then have "m = ?b" by (cases ps) simp_all
    with Cons p s(2) show ?thesis by (simp add: sample_doc_simps)
  qed
  with s(3) ne show ?thesis by (simp add: sample_doc_simps str_int_100)
qed

section \<open>An empty output\<close>




section \<open>The extraction loop\<close>

lemma process_tweets_all_good:
  "\<forall>u \<in> set ts. \<not> isl (documents_of ex u) \<Longrightarrow>
     fst (process_tweets ex ts acc w) = Inr (acc @ concat (map (\<lambda>u. projr (documents_of ex u)) ts))"
proof (induction ts arbitrary: acc w)
  case Nil
  then show ?case by simp
next
  case (Cons t ts)
  from Cons.prems have g: "\<not> isl (documents_of ex t)" by simp
  then obtain ml where ml: "extract_media ex t = Inr ml"
    by (cases "extract_media ex t") (simp_all add: documents_of_def)
  with g obtain ds where ds: "media_list_to_documents ex ml = Inr ds"
    by (cases "media_list_to_documents ex ml") (simp_all add: documents_of_def)
  have d: "documents_of ex t = Inr ds" by (simp add: documents_of_def ml ds)
  from Cons.prems have "\<forall>u \<in> set ts. \<not> isl (documents_of ex u)" by simp
  then show ?case using Cons.IH ml ds d by (simp add: Let_def)
qed

lemma process_tweets_aborts:
  assumes "\<forall>u \<in> set pre. \<not> isl (documents_of ex u)" and "documents_of ex t = Inl m"
  shows "fst (process_tweets ex (pre @ t # post) acc w) = Inl (ExtractorError m)"
    and "filter is_extract_media (trace (snd (process_tweets ex (pre @ t # post) acc w))) =
           filter is_extract_media (trace w) @ map ExtractMediaCall (pre @ [t])"
  using assms(1)
proof (induction pre arbitrary: acc w)
  case Nil
  {
    case 1
    show ?case using assms(2)
      by (cases "extract_media ex t") (auto simp add: documents_of_def Let_def split: sum.splits)
  next
    case 2
    show ?case using assms(2)
      by (cases "extract_media ex t") (auto simp add: documents_of_def Let_def split: sum.splits)
  }
next
  case (Cons u pre)
  {
    case 1
    then have g: "\<not> isl (documents_of ex u)" and r: "\<forall>v \<in> set pre. \<not> isl (documents_of ex v)"
      by simp_all
    from g obtain ml where ml: "extract_media ex u = Inr ml"
      by (cases "extract_media ex u") (simp_all add: documents_of_def)
    with g obtain ds where ds: "media_list_to_documents ex ml = Inr ds"
      by (cases "media_list_to_documents ex ml") (simp_all add: documents_of_def)
    show ?case using Cons.IH(1) [OF r] ml ds by (simp add: Let_def)
  next
    case 2
    then have g: "\<not> isl (documents_of ex u)" and r: "\<forall>v \<in> set pre. \<not> isl (documents_of ex v)"
      by simp_all
    from g obtain ml where ml: "extract_media ex u = Inr ml"
      by (cases "extract_media ex u") (simp_all add: documents_of_def)
    with g obtain ds where ds: "media_list_to_documents ex ml = Inr ds"
      by (cases "media_list_to_documents ex ml") (simp_all add: documents_of_def)
    show ?case using Cons.IH(2) [OF r] ml ds by (simp add: Let_def)
  }
qed

lemma documents_of_example:
  "documents_of example_extractor (tweet 800 40 [''d.jpg'']) = Inr [sample_doc 800 40 ''d.jpg'']"
  "documents_of example_extractor (tweet 700 30 [''malformed'']) = Inl ''malformed media entity''"
  "documents_of example_extractor (tweet 600 10 [''b.jpg'']) = Inr [sample_doc 600 10 ''b.jpg'']"
  by (simp_all add: documents_of_def example_extractor_def tweet_def sample_doc_def)

lemma malformed_fetch:
  "GetUserTimeline (fake_api malformed_timeline 10 ''Over capacity'')
     (Suc (Suc (api_calls (trace (world_with_cursor ''500''))))) ''acct1'' (Some 500) 200 =
   Inr [tweet 800 40 [''d.jpg''], tweet 700 30 [''malformed''], tweet 600 10 [''b.jpg'']]"
  by (simp add: GetUserTimeline_fake_api world_with_cursor_simps malformed_timeline_def tweet_def)

lemma malformed_run:
  "fst (process (TwitterMediaScraper ''acct1'') (fake_api malformed_timeline 10 ''Over capacity'')
      example_extractor (world_with_cursor ''500'')) = Inl (ExtractorError ''malformed media entity'')"
proof -
  let ?api = "fake_api malformed_timeline 10 ''Over capacity''"
  let ?self = "TwitterMediaScraper ''acct1''"
  have s: "metadata_store (world_with_cursor ''500'') SINCE_ID_KEY = Some ''500''"
    by (simp add: world_with_cursor_simps)
  have a0: "GetUserTimeline ?api (api_calls (trace (world_with_cursor ''500''))) ''acct1'' None 1 =
              Inr [tweet 800 40 [''d.jpg'']]"
    by (simp add: GetUserTimeline_fake_api world_with_cursor_simps malformed_timeline_def)
  have g: "GetStatus ?api (Suc (api_calls (trace (world_with_cursor ''500'')))) 500 =
             Inr (tweet 500 5 [''c.jpg''])"
    by (simp add: GetStatus_fake_api world_with_cursor_simps malformed_timeline_def tweet_def)
  note p = process_with_cursor [of "world_with_cursor ''500''" "''500''" 500 ?api ?self,
      unfolded screen_name_TwitterMediaScraper count_TwitterMediaScraper,
      OF s py_int_500 a0 refl refl, of example_extractor, unfolded g sum.case malformed_fetch]
  have ab: "fst (process_tweets example_extractor
              ([tweet 800 40 [''d.jpg'']] @ tweet 700 30 [''malformed''] # [tweet 600 10 [''b.jpg'']]) [] w) =
            Inl (ExtractorError ''malformed media entity'')" for w :: "unit world"
    by (rule process_tweets_aborts(1)) (simp_all add: documents_of_example)
  show ?thesis
    using ab by (simp add: p)
qed

text \<open>
  C9, as stated, fails: the fetch returns the tweets 800, 700 and 600, extraction raises
  on tweet 700, and the run ends with that exception; the documents of tweet 600, and
  those of tweet 800, are not returned.
\<close>

theorem extraction_failure_aborts_counterexample:
  "GetUserTimeline (fake_api malformed_timeline 10 ''Over capacity'')
     (Suc (Suc (api_calls (trace (world_with_cursor ''500''))))) ''acct1'' (Some 500) 200 =
   Inr [tweet 800 40 [''d.jpg''], tweet 700 30 [''malformed''], tweet 600 10 [''b.jpg'']]
   \<and> documents_of example_extractor (tweet 800 40 [''d.jpg'']) = Inr [sample_doc 800 40 ''d.jpg'']
   \<and> documents_of example_extractor (tweet 700 30 [''malformed'']) = Inl ''malformed media entity''
   \<and> documents_of example_extractor (tweet 600 10 [''b.jpg'']) = Inr [sample_doc 600 10 ''b.jpg'']
   \<and> fst (process (TwitterMediaScraper ''acct1'') (fake_api malformed_timeline 10 ''Over capacity'')
      example_extractor (world_with_cursor ''500'')) = Inl (ExtractorError ''malformed media entity'')"
  using malformed_fetch documents_of_example malformed_run by blast

text \<open>
  C9, amended. The loop has no handler: when a hook raises on a tweet and the tweets
  before it gave their documents, the loop ends with that exception, \<^verbatim>\<open>extract_media\<close>
  has been called on the tweets up to that one and on no later tweet, and no document
  is returned. Only when no tweet of the list makes a hook raise does the loop return
  the documents of all tweets, in the order of the list.
\<close>

theorem extraction_failure_aborts:
  "((\<forall>u \<in> set pre. \<not> isl (documents_of ex u)) \<and> documents_of ex t = Inl m \<longrightarrow>
      fst (process_tweets ex (pre @ t # post) acc w) = Inl (ExtractorError m)
      \<and> filter is_extract_media (trace (snd (process_tweets ex (pre @ t # post) acc w))) =
          filter is_extract_media (trace w) @ map ExtractMediaCall (pre @ [t]))
   \<and> ((\<forall>u \<in> set ts. \<not> isl (documents_of ex u)) \<longrightarrow>
      fst (process_tweets ex ts acc w) =
        Inr (acc @ concat (map (\<lambda>u. projr (documents_of ex u)) ts)))"
  using process_tweets_aborts [of pre ex t m post acc w] process_tweets_all_good [of ts ex acc w]
  by blast

theorem extraction_failure_aborts_witness:
  "documents_of example_extractor (tweet 800 40 [''d.jpg'']) = Inr [sample_doc 800 40 ''d.jpg'']
   \<and> documents_of example_extractor (tweet 700 30 [''malformed'']) = Inl ''malformed media entity''
   \<and> fst (process_tweets example_extractor
        [tweet 800 40 [''d.jpg''], tweet 700 30 [''malformed''], tweet 600 10 [''b.jpg'']] [] fresh_world) =
      Inl (ExtractorError ''malformed media entity'')
   \<and> filter is_extract_media (trace (snd (process_tweets example_extractor
        [tweet 800 40 [''d.jpg''], tweet 700 30 [''malformed''], tweet 600 10 [''b.jpg'']] [] fresh_world))) =
      [ExtractMediaCall (tweet 800 40 [''d.jpg'']), ExtractMediaCall (tweet 700 30 [''malformed''])]
   \<and> documents_of example_extractor (tweet 600 10 [''b.jpg'']) = Inr [sample_doc 600 10 ''b.jpg'']
   \<and> fst (process_tweets example_extractor
        [tweet 800 40 [''d.jpg''], tweet 600 10 [''b.jpg'']] [] fresh_world) =
      Inr [sample_doc 800 40 ''d.jpg'', sample_doc 600 10 ''b.jpg'']"
proof -
  have h1: "\<forall>u \<in> set [tweet 800 40 [''d.jpg'']]. \<not> isl (documents_of example_extractor u)"
    by (simp add: documents_of_example)
  have h2: "documents_of example_extractor (tweet 700 30 [''malformed'']) = Inl ''malformed media entity''"
    by (simp add: documents_of_example)
  have h3: "\<forall>u \<in> set [tweet 800 40 [''d.jpg''], tweet 600 10 [''b.jpg'']].
        \<not> isl (documents_of example_extractor u)"
    by (simp add: documents_of_example)
  note t = extraction_failure_aborts [of "[tweet 800 40 [''d.jpg'']]" example_extractor
      "tweet 700 30 [''malformed'']" "''malformed media entity''" "[tweet 600 10 [''b.jpg'']]" "[]"
      fresh_world "[tweet 800 40 [''d.jpg''], tweet 600 10 [''b.jpg'']]"]
  from t h1 h2 have a: "fst (process_tweets example_extractor
        ([tweet 800 40 [''d.jpg'']] @ tweet 700 30 [''malformed''] # [tweet 600 10 [''b.jpg'']]) []
        fresh_world) = Inl (ExtractorError ''malformed media entity'')"
    and b: "filter is_extract_media (trace (snd (process_tweets example_extractor
        ([tweet 800 40 [''d.jpg'']] @ tweet 700 30 [''malformed''] # [tweet 600 10 [''b.jpg'']]) []
        fresh_world))) =
      filter is_extract_media (trace fresh_world) @
        map ExtractMediaCall ([tweet 800 40 [''d.jpg'']] @ [tweet 700 30 [''malformed'']])"
    by blast+
  from t h3 have c: "fst (process_tweets example_extractor
        [tweet 800 40 [''d.jpg''], tweet 600 10 [''b.jpg'']] [] fresh_world) =
      Inr ([] @ concat (map (\<lambda>u. projr (documents_of example_extractor u))
              [tweet 800 40 [''d.jpg''], tweet 600 10 [''b.jpg'']]))"
    by blast
  from a have a': "fst (process_tweets example_extractor
        [tweet 800 40 [''d.jpg''], tweet 700 30 [''malformed''], tweet 600 10 [''b.jpg'']] [] fresh_world) =
      Inl (ExtractorError ''malformed media entity'')"
    by simp
  from b have b': "filter is_extract_media (trace (snd (process_tweets example_extractor
        [tweet 800 40 [''d.jpg''], tweet 700 30 [''malformed''], tweet 600 10 [''b.jpg'']] [] fresh_world))) =
      [ExtractMediaCall (tweet 800 40 [''d.jpg'']), ExtractMediaCall (tweet 700 30 [''malformed''])]"
    by (simp add: fresh_world_simps)
  from c have c': "fst (process_tweets example_extractor
        [tweet 800 40 [''d.jpg''], tweet 600 10 [''b.jpg'']] [] fresh_world) =
      Inr [sample_doc 800 40 ''d.jpg'', sample_doc 600 10 ''b.jpg'']"
    by (simp add: documents_of_example)
  show ?thesis using documents_of_example a' b' c' by blast
qed

section \<open>The text of the cursor\<close>

lemma process_unparsable_cursor:
  assumes "metadata_store w SINCE_ID_KEY = Some v" and "py_int v = None"
    and "GetUserTimeline api (api_calls (trace w)) (screen_name self) None 1 = Inr ts0"
  shows "process self api ex w =
           (Inl (ValueError v), log_event (GetUserTimelineCall (screen_name self) None 1) w)"
  using assms
  by (simp add: process_def probe_def call_GetUserTimeline_def initialize_since_id_def
      metadata_exists_def fetch_tweets_def metadata_get_def)

lemma extraction_not_get_status:
  "\<forall>e \<in> set evs. is_extraction e \<Longrightarrow> filter is_get_status evs = []"
proof (simp only: filter_empty_conv, rule ballI)
  fix x assume "\<forall>e \<in> set evs. is_extraction e" "x \<in> set evs"
  then have "is_extraction x" by simp
  then show "\<not> is_get_status x" by (cases x) simp_all
qed

lemma process_parsable_cursor:
  assumes "metadata_store w SINCE_ID_KEY = Some v" and "py_int v = Some c"
    and "GetUserTimeline api (api_calls (trace w)) (screen_name self) None 1 = Inr ts0"
  shows "filter is_get_status (drop (length (trace w)) (trace (snd (process self api ex w)))) =
           [GetStatusCall c]"
    and "\<forall>u. fst (process self api ex w) \<noteq> Inl (ValueError u)"
proof -
  let ?since = "case GetStatus api (Suc (api_calls (trace w))) c of Inl te \<Rightarrow> None | Inr s \<Rightarrow> Some c"
  let ?w3 = "log_event (GetUserTimelineCall (screen_name self) ?since (count self))
               (log_event (GetStatusCall c)
                 (log_event (GetUserTimelineCall (screen_name self) None 1) w))"
  let ?r = "GetUserTimeline api (Suc (Suc (api_calls (trace w)))) (screen_name self) ?since (count self)"
  note p = process_with_cursor [OF assms refl refl, of ex]
  have tr3: "trace ?w3 = trace w @ [GetUserTimelineCall (screen_name self) None 1, GetStatusCall c,
                GetUserTimelineCall (screen_name self) ?since (count self)]"
    by simp
  have "\<exists>evs. trace (snd (process self api ex w)) = trace ?w3 @ evs \<and> (\<forall>e \<in> set evs. is_extraction e)"
  proof (cases ?r)
    case (Inl te)
    then have "trace (snd (process self api ex w)) = trace ?w3 @ []" by (simp add: p)
    then show ?thesis by force
  next
    case (Inr tweets)
    show ?thesis
    proof (cases "tweets = []")
      case True
      with Inr have "trace (snd (process self api ex w)) = trace ?w3 @ []" by (simp add: p)
      then show ?thesis by force
    next
      case False
      with Inr have "process self api ex w = process_tweets ex tweets [] ?w3" by (simp add: p)
      then show ?thesis using trace_process_tweets [of ex tweets "[]" ?w3] by simp
    qed
  qed
  then obtain evs where evs: "trace (snd (process self api ex w)) = trace ?w3 @ evs"
      "\<forall>e \<in> set evs. is_extraction e"
    by blast
  show "filter is_get_status (drop (length (trace w)) (trace (snd (process self api ex w)))) =
           [GetStatusCall c]"
    using extraction_not_get_status [OF evs(2)] by (simp add: evs(1) tr3)
  show "\<forall>u. fst (process self api ex w) \<noteq> Inl (ValueError u)"
  proof (cases ?r)
    case (Inl te)
    then show ?thesis by (simp add: p)
  next
    case (Inr tweets)
    show ?thesis
    proof (cases "tweets = []")
      case True
      with Inr show ?thesis by (simp add: p)
    next
      case False
      with Inr have "process self api ex w = process_tweets ex tweets [] ?w3" by (simp add: p)
      then show ?thesis using process_tweets_error [of ex tweets "[]" ?w3] by auto
    qed
  qed
qed

lemma next_run_reads_cursor:
  assumes "metadata_store w SINCE_ID_KEY = Some v"
  shows "filter is_get_status (drop (length (trace w)) (trace (snd (process self api ex w)))) =
           (if isl (GetUserTimeline api (api_calls (trace w)) (screen_name self) None 1) then []
            else (case py_int v of None \<Rightarrow> [] | Some c \<Rightarrow> [GetStatusCall c]))"
    and "fst (process self api ex w) = Inl (ValueError v) \<longleftrightarrow>
           \<not> isl (GetUserTimeline api (api_calls (trace w)) (screen_name self) None 1) \<and> py_int v = None"
proof -
  let ?p = "GetUserTimeline api (api_calls (trace w)) (screen_name self) None 1"
  have "filter is_get_status (drop (length (trace w)) (trace (snd (process self api ex w)))) =
           (if isl ?p then [] else (case py_int v of None \<Rightarrow> [] | Some c \<Rightarrow> [GetStatusCall c]))
        \<and> (fst (process self api ex w) = Inl (ValueError v) \<longleftrightarrow> \<not> isl ?p \<and> py_int v = None)"
  proof (cases ?p)
    case (Inl te)
    then show ?thesis by (simp add: process_probe_error)
  next
    case (Inr ts0)
    show ?thesis
    proof (cases "py_int v")
      case None
      with Inr show ?thesis by (simp add: process_unparsable_cursor [OF assms None Inr])
    next
      case (Some c)
      with Inr show ?thesis
        using process_parsable_cursor [OF assms Some Inr, of ex] by simp
    qed
  qed
  then show "filter is_get_status (drop (length (trace w)) (trace (snd (process self api ex w)))) =
           (if isl ?p then [] else (case py_int v of None \<Rightarrow> [] | Some c \<Rightarrow> [GetStatusCall c]))"
    and "fst (process self api ex w) = Inl (ValueError v) \<longleftrightarrow> \<not> isl ?p \<and> py_int v = None"
    by simp_all
qed

lemma opaque_id: 
  "document_to_id opaque_id_extractor
     (max_by (document_to_created_at_in_seconds opaque_id_extractor)
        (hd [sample_doc 100 10 ''a.jpg'']) (tl [sample_doc 100 10 ''a.jpg''])) = ''media-100''"
  by (simp add: opaque_id_extractor_def sample_doc_def str_int_100)

lemma py_int_opaque: "py_int ''media-100'' = None"
  by (simp add: py_int_def strip_def is_space_def parse_digits_def is_digit_def digit_val_def)

lemma is_ascii_opaque: "is_ascii ''media-100''"
  by (simp add: is_ascii_def)

text \<open>
  C10, as stated, fails in its last part: after \<^verbatim>\<open>post_process\<close> has stored an identifier
  that \<^verbatim>\<open>int\<close> rejects, a run whose first one-item call raises the authorization error
  returns the empty list without reading the cursor, so it completes without a parse
  failure.
\<close>

theorem cursor_format_precondition_counterexample:
  "metadata_store (post_process opaque_id_extractor fresh_world [sample_doc 100 10 ''a.jpg''])
      SINCE_ID_KEY = Some ''media-100''
   \<and> py_int ''media-100'' = None
   \<and> fst (process (TwitterMediaScraper ''acct1'') (fake_api [] 0 ''Not authorized.'') opaque_id_extractor
        (post_process opaque_id_extractor fresh_world [sample_doc 100 10 ''a.jpg''])) = Inr []"
proof -
  have "metadata_store (post_process opaque_id_extractor fresh_world [sample_doc 100 10 ''a.jpg''])
      SINCE_ID_KEY = Some ''media-100''"
    by (simp add: post_process_Cons opaque_id_extractor_def sample_doc_def str_int_100)
  moreover have "GetUserTimeline (fake_api [] 0 ''Not authorized.'')
      (api_calls (trace (post_process opaque_id_extractor fresh_world [sample_doc 100 10 ''a.jpg''])))
      (screen_name (TwitterMediaScraper ''acct1'')) None 1 = Inl ''Not authorized.''"
    by (simp add: GetUserTimeline_fake_api)
  then have "fst (process (TwitterMediaScraper ''acct1'') (fake_api [] 0 ''Not authorized.'') opaque_id_extractor
        (post_process opaque_id_extractor fresh_world [sample_doc 100 10 ''a.jpg''])) = Inr []"
    using lower_not_authorized by (simp add: process_probe_error)
  ultimately show ?thesis using py_int_opaque by blast
qed

text \<open>
  C10, amended. After \<^verbatim>\<open>post_process\<close> on a non-empty list, the stored value is exactly
  the string \<^verbatim>\<open>document_to_id\<close> returned for the chosen document. For such a string of
  ASCII characters, the next run looks a status up exactly when its first one-item call
  returned and \<^verbatim>\<open>int\<close> accepted the stored string, and the status looked up is the
  parsed value; the run raises the \<^verbatim>\<open>ValueError\<close> of the conversion exactly when that call
  returned and \<^verbatim>\<open>int\<close> rejects the string. A run that ends at the first call never
  reads the cursor.
\<close>

theorem cursor_format_precondition:
  assumes "docs \<noteq> []"
    and "is_ascii (document_to_id ex (max_by (document_to_created_at_in_seconds ex) (hd docs) (tl docs)))"
  shows "metadata_store (post_process ex w docs) SINCE_ID_KEY =
           Some (document_to_id ex (max_by (document_to_created_at_in_seconds ex) (hd docs) (tl docs)))
       \<and> filter is_get_status (drop (length (trace (post_process ex w docs)))
             (trace (snd (process self api ex (post_process ex w docs))))) =
           (if isl (GetUserTimeline api (api_calls (trace (post_process ex w docs))) (screen_name self) None 1)
            then []
            else (case py_int (document_to_id ex
                     (max_by (document_to_created_at_in_seconds ex) (hd docs) (tl docs))) of
                    None \<Rightarrow> [] | Some c \<Rightarrow> [GetStatusCall c]))
       \<and> (fst (process self api ex (post_process ex w docs)) =
             Inl (ValueError (document_to_id ex
                     (max_by (document_to_created_at_in_seconds ex) (hd docs) (tl docs))))
           \<longleftrightarrow> \<not> isl (GetUserTimeline api (api_calls (trace (post_process ex w docs)))
                          (screen_name self) None 1)
               \<and> py_int (document_to_id ex
                     (max_by (document_to_created_at_in_seconds ex) (hd docs) (tl docs))) = None)"
proof -
  let ?v = "document_to_id ex (max_by (document_to_created_at_in_seconds ex) (hd docs) (tl docs))"
  from assms(1) have s: "metadata_store (post_process ex w docs) SINCE_ID_KEY = Some ?v"
    by (cases docs) (simp_all add: post_process_Cons)
  show ?thesis
    using s next_run_reads_cursor [OF s, of self api ex] by blast
qed

theorem cursor_format_precondition_witness:
  "[sample_doc 100 10 ''a.jpg''] \<noteq> []
   \<and> is_ascii ''media-100''
   \<and> metadata_store (post_process opaque_id_extractor fresh_world [sample_doc 100 10 ''a.jpg''])
      SINCE_ID_KEY = Some ''media-100''
   \<and> py_int ''media-100'' = None
   \<and> \<not> isl (GetUserTimeline (fake_api single_timeline 10 ''Over capacity'')
      (api_calls (trace (post_process opaque_id_extractor fresh_world [sample_doc 100 10 ''a.jpg''])))
      (screen_name (TwitterMediaScraper ''acct1'')) None 1)
   \<and> fst (process (TwitterMediaScraper ''acct1'') (fake_api single_timeline 10 ''Over capacity'')
        opaque_id_extractor
        (post_process opaque_id_extractor fresh_world [sample_doc 100 10 ''a.jpg''])) =
      Inl (ValueError ''media-100'')
   \<and> filter is_get_status
        (drop (length (trace (post_process opaque_id_extractor fresh_world [sample_doc 100 10 ''a.jpg''])))
          (trace (snd (process (TwitterMediaScraper ''acct1'') (fake_api single_timeline 10 ''Over capacity'')
             opaque_id_extractor
             (post_process opaque_id_extractor fresh_world [sample_doc 100 10 ''a.jpg'']))))) = []"
proof -
  have ne: "[sample_doc 100 10 ''a.jpg''] \<noteq> []" by simp
  have asc: "is_ascii (document_to_id opaque_id_extractor
     (max_by (document_to_created_at_in_seconds opaque_id_extractor)
        (hd [sample_doc 100 10 ''a.jpg'']) (tl [sample_doc 100 10 ''a.jpg''])))"
    by (simp only: opaque_id is_ascii_opaque)
  have pr: "\<not> isl (GetUserTimeline (fake_api single_timeline 10 ''Over capacity'')
      (api_calls (trace (post_process opaque_id_extractor fresh_world [sample_doc 100 10 ''a.jpg''])))
      (screen_name (TwitterMediaScraper ''acct1'')) None 1)"
    by (simp add: GetUserTimeline_fake_api post_process_Cons fresh_world_simps)
  note t = cursor_format_precondition [OF ne asc, of fresh_world "TwitterMediaScraper ''acct1''"
      "fake_api single_timeline 10 ''Over capacity''", unfolded opaque_id]
  from t pr py_int_opaque
  have "metadata_store (post_process opaque_id_extractor fresh_world [sample_doc 100 10 ''a.jpg''])
      SINCE_ID_KEY = Some ''media-100''"
    and "fst (process (TwitterMediaScraper ''acct1'') (fake_api single_timeline 10 ''Over capacity'')
        opaque_id_extractor
        (post_process opaque_id_extractor fresh_world [sample_doc 100 10 ''a.jpg''])) =
      Inl (ValueError ''media-100'')"
    and "filter is_get_status
        (drop (length (trace (post_process opaque_id_extractor fresh_world [sample_doc 100 10 ''a.jpg''])))
          (trace (snd (process (TwitterMediaScraper ''acct1'') (fake_api single_timeline 10 ''Over capacity'')
             opaque_id_extractor
             (post_process opaque_id_extractor fresh_world [sample_doc 100 10 ''a.jpg'']))))) = []"
    by simp_all
  with ne is_ascii_opaque py_int_opaque pr show ?thesis by blast
qed

section \<open>Does the cursor ever go back\<close>

lemma cursor_frame:
  "metadata_store w' = metadata_store w \<Longrightarrow> cursor w' = cursor w"
  by (simp add: cursor_def)

lemma cursor_metadata_set: "cursor (metadata_set SINCE_ID_KEY v w) = py_int v"
  by (simp add: cursor_def)

lemma max_by_in_set: "max_by key b xs \<in> set (b # xs)"
proof -
  obtain pre m post where "b # xs = pre @ m # post" "max_by key b xs = m"
    using max_by_first_maximum [of b xs key] by blast
  then show ?thesis by (metis in_set_conv_decomp)
qed

lemma process_tweets_documents:
  "fst (process_tweets ex tweets acc w) = Inr docs \<Longrightarrow> d \<in> set docs \<Longrightarrow>
     d \<in> set acc \<or> (\<exists>t \<in> set tweets. \<exists>ds. documents_of ex t = Inr ds \<and> d \<in> set ds)"
proof (induction tweets arbitrary: acc w)
  case Nil
  then show ?case by simp
next
  case (Cons t ts)
  from Cons.prems(1) obtain ml where ml: "extract_media ex t = Inr ml"
    by (cases "extract_media ex t") (simp_all add: Let_def)
  with Cons.prems(1) obtain ds where ds: "media_list_to_documents ex ml = Inr ds"
    by (cases "media_list_to_documents ex ml") (simp_all add: Let_def)
  have dt: "documents_of ex t = Inr ds" by (simp add: documents_of_def ml ds)
  from Cons.prems(1) ml ds
  have "fst (process_tweets ex ts (acc @ ds)
          (log_event (MediaListToDocumentsCall t) (log_event (ExtractMediaCall t) w))) = Inr docs"
    by (simp add: Let_def)
  from Cons.IH [OF this Cons.prems(2)]
  have "d \<in> set (acc @ ds) \<or> (\<exists>u \<in> set ts. \<exists>es. documents_of ex u = Inr es \<and> d \<in> set es)" .
  then show ?case using dt by auto
qed

lemma extract_media_example:
  "''malformed'' \<notin> set urls \<Longrightarrow>
     extract_media example_extractor (tweet i secs urls) = Inr (map (Pair (tweet i secs urls)) urls)"
  by (simp add: example_extractor_def tweet_def)

lemma media_list_to_documents_Nil: "media_list_to_documents example_extractor [] = Inr []"
  by (simp add: example_extractor_def)

lemma cursor_500: "cursor (world_with_cursor ''500'') = Some 500"
  by (simp add: cursor_def world_with_cursor_simps py_int_500)

lemma stale_run:
  "process (TwitterMediaScraper ''acct1'') (fake_api stale_timeline 10 ''Over capacity'')
      example_extractor (world_with_cursor ''500'') =
     (Inr [sample_doc 400 3 ''b.jpg''],
      log_event (MediaListToDocumentsCall (tweet 400 3 [''b.jpg'']))
        (log_event (ExtractMediaCall (tweet 400 3 [''b.jpg'']))
          (log_event (GetUserTimelineCall ''acct1'' None 200)
            (log_event (GetStatusCall 500)
              (log_event (GetUserTimelineCall ''acct1'' None 1) (world_with_cursor ''500''))))))"
proof -
  let ?api = "fake_api stale_timeline 10 ''Over capacity''"
  let ?self = "TwitterMediaScraper ''acct1''"
  have s: "metadata_store (world_with_cursor ''500'') SINCE_ID_KEY = Some ''500''"
    by (simp add: world_with_cursor_simps)
  have a0: "GetUserTimeline ?api (api_calls (trace (world_with_cursor ''500''))) ''acct1'' None 1 =
              Inr [tweet 400 3 [''b.jpg'']]"
    by (simp add: GetUserTimeline_fake_api world_with_cursor_simps stale_timeline_def)
  have g: "GetStatus ?api (Suc (api_calls (trace (world_with_cursor ''500'')))) 500 =
             Inl ''No status found with that ID.''"
    by (simp add: GetStatus_fake_api world_with_cursor_simps stale_timeline_def tweet_def)
  have f: "GetUserTimeline ?api (Suc (Suc (api_calls (trace (world_with_cursor ''500''))))) ''acct1''
             None 200 = Inr [tweet 400 3 [''b.jpg'']]"
    by (simp add: GetUserTimeline_fake_api world_with_cursor_simps stale_timeline_def)
  have e: "extract_media example_extractor (tweet 400 3 [''b.jpg'']) =
             Inr [(tweet 400 3 [''b.jpg''], ''b.jpg'')]"
    by (simp add: extract_media_example)
  note p = process_with_cursor [of "world_with_cursor ''500''" "''500''" 500 ?api ?self,
      unfolded screen_name_TwitterMediaScraper count_TwitterMediaScraper,
      OF s py_int_500 a0 refl refl, of example_extractor, unfolded g sum.case f]
  show ?thesis
    by (simp add: p e documents_of_sample_tweet)
qed

lemma example_extractor_ids:
  "\<forall>t ds d. documents_of example_extractor t = Inr ds \<longrightarrow> d \<in> set ds \<longrightarrow>
     document_to_id example_extractor d = str_int (status_id t)"
  by (auto simp add: documents_of_def example_extractor_def split: if_splits)

lemma fake_api_since:
  "\<forall>tweets. GetUserTimeline (fake_api timeline k msg) n sn (Some c) cnt = Inr tweets \<longrightarrow>
     (\<forall>t \<in> set tweets. c < status_id t)"
  by (auto simp add: GetUserTimeline_fake_api split: if_splits dest: in_set_takeD)

lemma live_run:
  "process (TwitterMediaScraper ''acct1'') (fake_api live_timeline 10 ''Over capacity'')
      example_extractor (world_with_cursor ''500'') =
     (Inr [sample_doc 700 30 ''a.jpg''],
      log_event (MediaListToDocumentsCall (tweet 600 10 []))
        (log_event (ExtractMediaCall (tweet 600 10 []))
          (log_event (MediaListToDocumentsCall (tweet 700 30 [''a.jpg'']))
            (log_event (ExtractMediaCall (tweet 700 30 [''a.jpg'']))
              (log_event (GetUserTimelineCall ''acct1'' (Some 500) 200)
                (log_event (GetStatusCall 500)
                  (log_event (GetUserTimelineCall ''acct1'' None 1) (world_with_cursor ''500''))))))))"
proof -
  let ?api = "fake_api live_timeline 10 ''Over capacity''"
  let ?self = "TwitterMediaScraper ''acct1''"
  have s: "metadata_store (world_with_cursor ''500'') SINCE_ID_KEY = Some ''500''"
    by (simp add: world_with_cursor_simps)
  have a0: "GetUserTimeline ?api (api_calls (trace (world_with_cursor ''500''))) ''acct1'' None 1 =
              Inr [tweet 700 30 [''a.jpg'']]"
    by (simp add: GetUserTimeline_fake_api world_with_cursor_simps live_timeline_def)
  have g: "GetStatus ?api (Suc (api_calls (trace (world_with_cursor ''500'')))) 500 =
             Inr (tweet 500 5 [''c.jpg''])"
    by (simp add: GetStatus_fake_api world_with_cursor_simps live_timeline_def tweet_def)
  have f: "GetUserTimeline ?api (Suc (Suc (api_calls (trace (world_with_cursor ''500''))))) ''acct1''
             (Some 500) 200 = Inr [tweet 700 30 [''a.jpg''], tweet 600 10 []]"
    by (simp add: GetUserTimeline_fake_api world_with_cursor_simps live_timeline_def tweet_def)
  have e1: "extract_media example_extractor (tweet 700 30 [''a.jpg'']) =
             Inr [(tweet 700 30 [''a.jpg''], ''a.jpg'')]"
    by (simp add: extract_media_example)
  have e2: "extract_media example_extractor (tweet 600 10 []) = Inr []"
    by (simp add: extract_media_example)
  note p = process_with_cursor [of "world_with_cursor ''500''" "''500''" 500 ?api ?self,
      unfolded screen_name_TwitterMediaScraper count_TwitterMediaScraper,
      OF s py_int_500 a0 refl refl, of example_extractor, unfolded g sum.case f]
  show ?thesis
    by (simp add: p e1 e2 documents_of_sample_tweet media_list_to_documents_Nil)
qed

text \<open>
  C1, as stated, fails: with the cursor 500 stored, the lookup of status 500 raises, the
  run falls back to the latest tweets, gets tweet 400, and \<^verbatim>\<open>post_process\<close> stores 400
  over 500.
\<close>

theorem cursor_monotone_live_counterexample:
  "cursor (world_with_cursor ''500'') = Some 500
   \<and> GetStatus (fake_api stale_timeline 10 ''Over capacity'')
        (Suc (api_calls (trace (world_with_cursor ''500'')))) 500 = Inl ''No status found with that ID.''
   \<and> fst (run (TwitterMediaScraper ''acct1'') (fake_api stale_timeline 10 ''Over capacity'')
          example_extractor (world_with_cursor ''500'')) = Inr [sample_doc 400 3 ''b.jpg'']
   \<and> cursor (snd (run (TwitterMediaScraper ''acct1'') (fake_api stale_timeline 10 ''Over capacity'')
          example_extractor (world_with_cursor ''500''))) = Some 400"
proof -
  have "GetStatus (fake_api stale_timeline 10 ''Over capacity'')
        (Suc (api_calls (trace (world_with_cursor ''500'')))) 500 = Inl ''No status found with that ID.''"
    by (simp add: GetStatus_fake_api world_with_cursor_simps stale_timeline_def tweet_def)
  moreover have "fst (run (TwitterMediaScraper ''acct1'') (fake_api stale_timeline 10 ''Over capacity'')
          example_extractor (world_with_cursor ''500'')) = Inr [sample_doc 400 3 ''b.jpg'']"
    by (simp add: run_def stale_run)
  moreover have "cursor (snd (run (TwitterMediaScraper ''acct1'') (fake_api stale_timeline 10 ''Over capacity'')
          example_extractor (world_with_cursor ''500''))) = Some 400"
    by (simp add: run_def stale_run post_process_Cons cursor_metadata_set sample_doc_simps py_int_str_int)
  ultimately show ?thesis using cursor_500 by blast
qed

text \<open>
  C1, amended. \<^verbatim>\<open>post_process\<close> never compares the value it writes with the stored one.
  A run that returns its documents does not lower the cursor \<open>c\<close> it started with when
  the lookup of \<open>c\<close> returned, the fetch after \<open>c\<close> returns only tweets with ids above
  \<open>c\<close>, and every document carries as identifier the decimal text of the id of the tweet
  it was made from: the cursor is then \<open>c\<close> when no document was made and greater than
  \<open>c\<close> otherwise. Nothing is stated for the fallback fetch.
\<close>

theorem cursor_monotone_live:
  assumes "cursor w = Some c"
    and "GetUserTimeline api (api_calls (trace w)) (screen_name self) None 1 = Inr ts0"
    and "GetStatus api (Suc (api_calls (trace w))) c = Inr s"
    and "\<forall>tweets. GetUserTimeline api (Suc (Suc (api_calls (trace w)))) (screen_name self) (Some c)
            (count self) = Inr tweets \<longrightarrow> (\<forall>t \<in> set tweets. c < status_id t)"
    and "\<forall>t ds d. documents_of ex t = Inr ds \<longrightarrow> d \<in> set ds \<longrightarrow>
            document_to_id ex d = str_int (status_id t)"
    and "fst (run self api ex w) = Inr docs"
  shows "\<exists>c'. cursor (snd (run self api ex w)) = Some c' \<and> c \<le> c'
           \<and> (docs \<noteq> [] \<longrightarrow> c < c') \<and> (docs = [] \<longrightarrow> c' = c)"
proof -
  from assms(1) obtain v where v: "metadata_store w SINCE_ID_KEY = Some v" "py_int v = Some c"
    by (auto simp add: cursor_def split: option.splits)
  let ?w3 = "log_event (GetUserTimelineCall (screen_name self) (Some c) (count self))
               (log_event (GetStatusCall c)
                 (log_event (GetUserTimelineCall (screen_name self) None 1) w))"
  let ?r = "GetUserTimeline api (Suc (Suc (api_calls (trace w)))) (screen_name self) (Some c) (count self)"
  have since: "Some c = (case GetStatus api (Suc (api_calls (trace w))) c of
                 Inl te \<Rightarrow> None | Inr s \<Rightarrow> Some c)"
    by (simp add: assms(3))
  note p = process_with_cursor [OF v assms(2) since refl, of ex]
  have c3: "cursor ?w3 = Some c" using assms(1) by (simp add: cursor_def)
  obtain r1 w1 where pw: "process self api ex w = (r1, w1)" by (cases "process self api ex w")
  with assms(6) have r1: "r1 = Inr docs" and rn: "run self api ex w = (Inr docs, post_process ex w1 docs)"
    by (auto simp add: run_def split: sum.splits)
  show ?thesis
  proof (cases ?r)
    case (Inl te)
    with p pw r1 show ?thesis by simp
  next
    case (Inr tweets)
    with assms(4) have above: "\<forall>t \<in> set tweets. c < status_id t" by blast
    have w1: "cursor w1 = Some c"
      and from_tweets: "\<forall>d \<in> set docs. \<exists>t \<in> set tweets. document_to_id ex d = str_int (status_id t)"
    proof -
      show "cursor w1 = Some c"
      proof (cases "tweets = []")
        case True
        with Inr p pw have "w1 = ?w3" by simp
        with c3 show ?thesis by simp
      next
        case False
        with Inr p have "process self api ex w = process_tweets ex tweets [] ?w3" by simp
        with pw have "w1 = snd (process_tweets ex tweets [] ?w3)" by (metis snd_conv)
        then have "metadata_store w1 = metadata_store ?w3" by simp
        with c3 show ?thesis using cursor_frame by metis
      qed
      show "\<forall>d \<in> set docs. \<exists>t \<in> set tweets. document_to_id ex d = str_int (status_id t)"
      proof (cases "tweets = []")
        case True
        with Inr p pw r1 have "docs = []" by simp
        then show ?thesis by simp
      next
        case False
        with Inr p have "process self api ex w = process_tweets ex tweets [] ?w3" by simp
        with pw r1 have f: "fst (process_tweets ex tweets [] ?w3) = Inr docs" by (metis fst_conv)
        show ?thesis
        proof
          fix d assume "d \<in> set docs"
          from process_tweets_documents [OF f this]
          obtain t ds where "t \<in> set tweets" "documents_of ex t = Inr ds" "d \<in> set ds" by auto
          with assms(5) show "\<exists>t \<in> set tweets. document_to_id ex d = str_int (status_id t)" by blast
        qed
      qed
    qed
    show ?thesis
    proof (cases docs)
      case Nil
      with rn w1 show ?thesis by simp
    next
      case (Cons d ds)
      let ?m = "max_by (document_to_created_at_in_seconds ex) d ds"
      have "?m \<in> set docs" using Cons max_by_in_set [of "document_to_created_at_in_seconds ex" d ds] by simp
      with from_tweets obtain t where t: "t \<in> set tweets" "document_to_id ex ?m = str_int (status_id t)"
        by blast
      have "cursor (snd (run self api ex w)) = py_int (document_to_id ex ?m)"
        using rn Cons by (simp add: post_process_Cons cursor_metadata_set)
      then have "cursor (snd (run self api ex w)) = Some (status_id t)"
        using t(2) by (simp add: py_int_str_int)
      moreover from above t(1) have "c < status_id t" by simp
      ultimately show ?thesis using Cons by simp
    qed
  qed
qed

theorem cursor_monotone_live_witness:
  "cursor (world_with_cursor ''500'') = Some 500
   \<and> GetUserTimeline (fake_api live_timeline 10 ''Over capacity'')
        (api_calls (trace (world_with_cursor ''500''))) (screen_name (TwitterMediaScraper ''acct1'')) None 1 =
      Inr [tweet 700 30 [''a.jpg'']]
   \<and> GetStatus (fake_api live_timeline 10 ''Over capacity'')
        (Suc (api_calls (trace (world_with_cursor ''500'')))) 500 = Inr (tweet 500 5 [''c.jpg''])
   \<and> fst (run (TwitterMediaScraper ''acct1'') (fake_api live_timeline 10 ''Over capacity'')
          example_extractor (world_with_cursor ''500'')) = Inr [sample_doc 700 30 ''a.jpg'']
   \<and> cursor (snd (run (TwitterMediaScraper ''acct1'') (fake_api live_timeline 10 ''Over capacity'')
          example_extractor (world_with_cursor ''500''))) \<noteq> None
   \<and> 500 < the (cursor (snd (run (TwitterMediaScraper ''acct1'') (fake_api live_timeline 10 ''Over capacity'')
          example_extractor (world_with_cursor ''500''))))"
proof -
  let ?api = "fake_api live_timeline 10 ''Over capacity''"
  let ?self = "TwitterMediaScraper ''acct1''"
  have a0: "GetUserTimeline ?api (api_calls (trace (world_with_cursor ''500''))) (screen_name ?self) None 1 =
              Inr [tweet 700 30 [''a.jpg'']]"
    by (simp add: GetUserTimeline_fake_api world_with_cursor_simps live_timeline_def)
  have g: "GetStatus ?api (Suc (api_calls (trace (world_with_cursor ''500'')))) 500 =
             Inr (tweet 500 5 [''c.jpg''])"
    by (simp add: GetStatus_fake_api world_with_cursor_simps live_timeline_def tweet_def)
  have ok: "fst (run ?self ?api example_extractor (world_with_cursor ''500'')) =
              Inr [sample_doc 700 30 ''a.jpg'']"
    by (simp add: run_def live_run)
  from cursor_monotone_live [OF cursor_500 a0 g fake_api_since example_extractor_ids ok]
  obtain c' where "cursor (snd (run ?self ?api example_extractor (world_with_cursor ''500''))) = Some c'"
      and "500 < c'"
    by auto
  then have "cursor (snd (run ?self ?api example_extractor (world_with_cursor ''500''))) \<noteq> None"
    and "500 < the (cursor (snd (run ?self ?api example_extractor (world_with_cursor ''500''))))"
    by simp_all
  with cursor_500 a0 g ok show ?thesis by blast
qed

end
